theory Spec2Isabelle
  imports Complex_Main "HOL-Library.AList" "HOL-Library.Multiset"
begin

section \<open>ARION: shared data model\<close>

text \<open>
  Python floats are idealised as reals. A float that the code itself can turn into
  \<open>nan\<close> or an infinity from finite data (a mean of no values, a standard deviation of
  fewer than two values, a division by a zero deviation, a correlation of a constant
  series) has the type \<open>pyfloat\<close>.
\<close>

datatype pyfloat = Fin real | PosInf | NegInf | NaN

text \<open>The exceptions of the modelled code; \<open>Raised\<close> is any other exception, by name.\<close>

datatype error =
    KeyError string
  | IndexError
  | ZeroDivisionError
  | Raised string

text \<open>
  An alert is the dict the agents build: \<open>symbol\<close> is absent from the correlation
  agent's alerts, \<open>source\<close> is absent until the engine stamps it, and the engine reads
  \<open>severity\<close> with \<open>.get('severity', 'LOW')\<close>.
\<close>

record alert =
  symbol :: "string option"
  alert_type :: string
  severity :: "string option"
  message :: string
  alert_value :: pyfloat
  source :: "string option"

text \<open>The result dicts of the five agents, one record per agent, with the agent's keys.\<close>

record risk_result =
  overall_risk_score :: real
  max_risk_score :: real
  risk_level :: string
  risk_individual_scores :: "(string \<times> real) list"
  volatility :: "(string \<times> real) list"
  drawdowns :: "(string \<times> pyfloat) list"
  risk_alerts :: "alert list"
  risk_confidence :: real

record forecast =
  predicted_return :: real
  predicted_direction :: string
  fc_confidence :: real
  trend :: string

record forecast_result =
  forecasts :: "(string \<times> forecast) list"
  market_sentiment :: string
  average_prediction :: real
  forecast_confidence :: real

record sentiment_result =
  overall_score :: real
  overall_label :: string
  sent_individual_scores :: "(string \<times> real) list"
  individual_labels :: "(string \<times> string) list"
  article_counts :: "(string \<times> nat) list"
  distribution_positive :: nat
  distribution_negative :: nat
  distribution_neutral :: nat
  sent_alerts :: "alert list"
  sent_confidence :: real

record high_correlation =
  hc_pair :: string
  hc_correlation :: pyfloat
  hc_type :: string

record correlation_increase =
  ci_pair :: string
  ci_recent :: pyfloat
  ci_historical :: pyfloat
  ci_change :: pyfloat

record correlation_result =
  correlation_matrix :: "(string \<times> (string \<times> pyfloat) list) list"
  average_correlation :: pyfloat
  diversification_score :: real
  high_correlations :: "high_correlation list"
  correlation_increases :: "correlation_increase list"
  correlation_risk_level :: string
  corr_alerts :: "alert list"
  corr_confidence :: real

record priority_action =
  action :: string
  priority :: string
  reason :: string
  details :: string

record recommendation =
  category :: string
  recommendation_text :: string
  rationale :: string
  urgency :: string

record advisory_result =
  overall_recommendation :: string
  priority_actions :: "priority_action list"
  recommendations :: "recommendation list"
  risk_factors :: "string list"
  adv_confidence :: pyfloat
  summary :: string

datatype agent_result =
    RiskResult risk_result
  | ForecastResult forecast_result
  | SentimentResult sentiment_result
  | CorrelationResult correlation_result
  | AdvisoryResult advisory_result

subsection \<open>\<open>dict.get(key, default)\<close> on a result dict\<close>

text \<open>
  The engine looks its results up by agent name and reads them with \<open>.get\<close>; a key
  that the dict of an agent does not have gives the default.
\<close>

fun get_overall_risk_score :: "agent_result \<Rightarrow> real \<Rightarrow> real" where
  "get_overall_risk_score (RiskResult r) d = overall_risk_score r"
| "get_overall_risk_score _ d = d"

fun get_risk_level :: "agent_result \<Rightarrow> string \<Rightarrow> string" where
  "get_risk_level (RiskResult r) d = risk_level r"
| "get_risk_level (CorrelationResult c) d = correlation_risk_level c"
| "get_risk_level _ d = d"

fun get_market_sentiment :: "agent_result \<Rightarrow> string \<Rightarrow> string" where
  "get_market_sentiment (ForecastResult f) d = market_sentiment f"
| "get_market_sentiment _ d = d"

fun get_overall_label :: "agent_result \<Rightarrow> string \<Rightarrow> string" where
  "get_overall_label (SentimentResult s) d = overall_label s"
| "get_overall_label _ d = d"

fun get_overall_score :: "agent_result \<Rightarrow> real \<Rightarrow> real" where
  "get_overall_score (SentimentResult s) d = overall_score s"
| "get_overall_score _ d = d"

fun get_alerts :: "agent_result \<Rightarrow> alert list \<Rightarrow> alert list" where
  "get_alerts (RiskResult r) d = risk_alerts r"
| "get_alerts (SentimentResult s) d = sent_alerts s"
| "get_alerts (CorrelationResult c) d = corr_alerts c"
| "get_alerts _ d = d"

subsection \<open>Inputs: price tables, news items, quotes\<close>

text \<open>
  A DataFrame is its column names and its rows in index order; a row is its date and
  its cells by column name. A cell is a finite number, or missing (\<open>NaN\<close>), which is
  \<open>None\<close>. A column is read only after the code has checked that its name is in
  \<open>columns\<close>.
\<close>

record dataframe =
  columns :: "string list"
  rows :: "(nat \<times> (string \<rightharpoonup> real)) list"

text \<open>
  A news item as the data fetcher builds it; the sentiment agent reads \<open>title\<close> with
  \<open>.get('title', '')\<close>.
\<close>

record article =
  title :: "string option"
  publisher :: string
  link :: string
  published :: string

text \<open>The per-symbol quote dict that the data fetcher returns in \<open>current_prices\<close>.\<close>

record price_info =
  price :: real
  change :: real
  change_percent :: real
  volume :: real
  market_cap :: real
  pe_ratio :: real
  sector :: string
  industry :: string

section \<open>Numbers, strings and series\<close>

text \<open>
  Python's \<open>format(value, spec)\<close> for floats, as used by the f-strings of the agents
  (\<open>.1f\<close>, \<open>.2f\<close>, \<open>.2%\<close>), is a parameter of every function that builds a message.
\<close>

type_synonym formatter = "string \<Rightarrow> pyfloat \<Rightarrow> string"

text \<open>\<open>str.lower()\<close> on ASCII text (the level and label names).\<close>

definition lower_char :: "char \<Rightarrow> char" where
  "lower_char ch =
     (if (65::nat) \<le> of_char ch \<and> of_char ch \<le> (90::nat)
      then char_of (of_char ch + (32::nat)) else ch)"

definition str_lower :: "string \<Rightarrow> string" where
  "str_lower s = map lower_char s"

text \<open>\<open>np.mean\<close> of a list of floats: the mean of no values is \<open>nan\<close> (a warning, no exception).\<close>

definition np_mean :: "real list \<Rightarrow> pyfloat" where
  "np_mean xs = (if xs = [] then NaN else Fin (sum_list xs / real (length xs)))"

text \<open>The mean of a list that the code has checked to be non-empty.\<close>

definition mean :: "real list \<Rightarrow> real" where
  "mean xs = sum_list xs / real (length xs)"

text \<open>Python's \<open>max\<close> of a sequence: the first item, replaced by each later, greater one.\<close>

definition py_max :: "real list \<Rightarrow> real" where
  "py_max xs = (case xs of [] \<Rightarrow> 0 | x # rest \<Rightarrow> foldl (\<lambda>m v. if v > m then v else m) x rest)"

text \<open>Comparison and arithmetic on floats that may be \<open>nan\<close>: a comparison with \<open>nan\<close> is false.\<close>

fun pf_less :: "pyfloat \<Rightarrow> pyfloat \<Rightarrow> bool" where
  "pf_less (Fin a) (Fin b) = (a < b)"
| "pf_less (Fin a) PosInf = True"
| "pf_less NegInf (Fin b) = True"
| "pf_less NegInf PosInf = True"
| "pf_less _ _ = False"

fun pf_abs :: "pyfloat \<Rightarrow> pyfloat" where
  "pf_abs (Fin a) = Fin \<bar>a\<bar>"
| "pf_abs PosInf = PosInf"
| "pf_abs NegInf = PosInf"
| "pf_abs NaN = NaN"

fun pf_scale :: "pyfloat \<Rightarrow> real \<Rightarrow> pyfloat" where
  "pf_scale (Fin a) k = Fin (a * k)"
| "pf_scale PosInf k = (if k > 0 then PosInf else if k < 0 then NegInf else NaN)"
| "pf_scale NegInf k = (if k > 0 then NegInf else if k < 0 then PosInf else NaN)"
| "pf_scale NaN k = NaN"

fun pf_plus :: "pyfloat \<Rightarrow> real \<Rightarrow> pyfloat" where
  "pf_plus (Fin a) k = Fin (a + k)"
| "pf_plus x k = x"

fun pf_minus :: "pyfloat \<Rightarrow> pyfloat \<Rightarrow> pyfloat" where
  "pf_minus (Fin a) (Fin b) = Fin (a - b)"
| "pf_minus NaN y = NaN"
| "pf_minus x NaN = NaN"
| "pf_minus PosInf PosInf = NaN"
| "pf_minus NegInf NegInf = NaN"
| "pf_minus PosInf y = PosInf"
| "pf_minus NegInf y = NegInf"
| "pf_minus (Fin a) PosInf = NegInf"
| "pf_minus (Fin a) NegInf = PosInf"

text \<open>A numpy float divided by a float that may be zero, infinite or \<open>nan\<close>.\<close>

fun pf_rdiv :: "real \<Rightarrow> pyfloat \<Rightarrow> pyfloat" where
  "pf_rdiv a (Fin b) =
     (if b \<noteq> 0 then Fin (a / b)
      else if a > 0 then PosInf else if a < 0 then NegInf else NaN)"
| "pf_rdiv a PosInf = Fin 0"
| "pf_rdiv a NegInf = Fin 0"
| "pf_rdiv a NaN = NaN"

definition df_len :: "dataframe \<Rightarrow> nat" where
  "df_len df = length (rows df)"

definition df_empty :: "dataframe \<Rightarrow> bool" where
  "df_empty df = (rows df = [] \<or> columns df = [])"

definition column :: "dataframe \<Rightarrow> string \<Rightarrow> real option list" where
  "column df name = map (\<lambda>(date, r). r name) (rows df)"

definition dropna :: "real option list \<Rightarrow> real list" where
  "dropna xs = concat (map (\<lambda>x. case x of None \<Rightarrow> [] | Some v \<Rightarrow> [v]) xs)"

definition tail :: "nat \<Rightarrow> 'a list \<Rightarrow> 'a list" where
  "tail n xs = drop (length xs - n) xs"

text \<open>\<open>s.iloc[:-n]\<close> for \<open>n > 0\<close>: all but the last \<open>n\<close>.\<close>

definition iloc_but_last :: "nat \<Rightarrow> 'a list \<Rightarrow> 'a list" where
  "iloc_but_last n xs = take (length xs - n) xs"

definition iloc_last :: "'a list \<Rightarrow> error + 'a" where
  "iloc_last xs = (if xs = [] then Inl IndexError else Inr (last xs))"

text \<open>
  The sample standard deviation (\<open>ddof = 1\<close>) of at least two values, and
  \<open>Series.std()\<close>, which skips missing values and is \<open>nan\<close> on fewer than two.
\<close>

definition std_of :: "real list \<Rightarrow> real" where
  "std_of xs = sqrt (sum_list (map (\<lambda>x. (x - mean xs)\<^sup>2) xs) / real (length xs - 1))"

definition series_std :: "real option list \<Rightarrow> pyfloat" where
  "series_std xs = (let vs = dropna xs in if length vs < 2 then NaN else Fin (std_of vs))"

section \<open>The risk agent (backend/agents/risk_agent.py)\<close>

record risk_agent =
  volatility_threshold :: real
  drawdown_threshold :: real
  risk_last_analysis :: "risk_result option"

definition RiskAgent_init :: risk_agent where
  "RiskAgent_init =
     \<lparr>volatility_threshold = 0.3, drawdown_threshold = - 0.15, risk_last_analysis = None\<rparr>"

definition RiskAgent_empty_result :: risk_result where
  "RiskAgent_empty_result =
     \<lparr>overall_risk_score = 0, max_risk_score = 0, risk_level = ''UNKNOWN'',
      risk_individual_scores = [], volatility = [], drawdowns = [], risk_alerts = [],
      risk_confidence = 0\<rparr>"

text \<open>The four collections that the loop of \<open>analyze\<close> fills.\<close>

record risk_acc =
  acc_risk_scores :: "(string \<times> real) list"
  acc_volatility :: "(string \<times> real) list"
  acc_drawdowns :: "(string \<times> pyfloat) list"
  acc_alerts :: "alert list"

text \<open>
  \<open>min(100, (current_vol / threshold) * 50)\<close>. \<open>current_vol\<close> is a numpy float and
  not negative: divided by a zero threshold it is \<open>inf\<close> or \<open>nan\<close>, and Python's
  \<open>min(100, x)\<close> is 100 for both.
\<close>

definition vol_score_of :: "real \<Rightarrow> real \<Rightarrow> real" where
  "vol_score_of threshold current_vol =
     (if threshold = 0 then 100 else min 100 ((current_vol / threshold) * 50))"

text \<open>
  \<open>min(100, abs(current_dd / threshold) * 50)\<close>. \<open>current_dd\<close> is the last cell of the
  Drawdown column (a numpy float, maybe \<open>nan\<close>), or the Python int 0 where the column is
  absent: only the latter raises on a zero threshold.
\<close>

definition dd_score_of :: "real \<Rightarrow> real option option \<Rightarrow> error + real" where
  "dd_score_of threshold current_dd =
     (case current_dd of
        None \<Rightarrow> if threshold = 0 then Inl ZeroDivisionError else Inr (min 100 (\<bar>0 / threshold\<bar> * 50))
      | Some None \<Rightarrow> Inr 100
      | Some (Some d) \<Rightarrow>
          if threshold = 0 then Inr 100 else Inr (min 100 (\<bar>d / threshold\<bar> * 50)))"

definition dd_value :: "real option option \<Rightarrow> pyfloat" where
  "dd_value current_dd =
     (case current_dd of None \<Rightarrow> Fin 0 | Some None \<Rightarrow> NaN | Some (Some d) \<Rightarrow> Fin d)"

definition volatility_alerts :: "formatter \<Rightarrow> real \<Rightarrow> string \<Rightarrow> real \<Rightarrow> alert list" where
  "volatility_alerts fmt threshold symb current_vol =
     (if current_vol > threshold
      then [\<lparr>symbol = Some symb, alert_type = ''HIGH_VOLATILITY'',
             severity = Some (if current_vol > threshold * 1.5 then ''HIGH'' else ''MEDIUM''),
             message = symb @ '': High volatility detected ('' @ fmt ''.2%'' (Fin current_vol) @ '')'',
             alert_value = Fin current_vol, source = None\<rparr>]
      else [])"

definition drawdown_alerts :: "formatter \<Rightarrow> real \<Rightarrow> string \<Rightarrow> pyfloat \<Rightarrow> alert list" where
  "drawdown_alerts fmt threshold symb current_dd =
     (if pf_less current_dd (Fin threshold)
      then [\<lparr>symbol = Some symb, alert_type = ''SIGNIFICANT_DRAWDOWN'',
             severity = Some (if pf_less current_dd (Fin (threshold * 1.5)) then ''HIGH'' else ''MEDIUM''),
             message = symb @ '': Significant drawdown ('' @ fmt ''.2%'' current_dd @ '')'',
             alert_value = current_dd, source = None\<rparr>]
      else [])"

definition spike_alerts :: "formatter \<Rightarrow> string \<Rightarrow> dataframe \<Rightarrow> real \<Rightarrow> alert list" where
  "spike_alerts fmt symb df current_vol =
     (if df_len df > 60
      then
        let historical_vol =
              pf_scale (series_std (iloc_but_last 20 (column df ''Returns''))) (sqrt 252)
        in if pf_less (pf_scale historical_vol 1.5) (Fin current_vol)
           then [\<lparr>symbol = Some symb, alert_type = ''VOLATILITY_SPIKE'',
                  severity = Some ''MEDIUM'',
                  message = symb @ '': Volatility spike detected (current: ''
                            @ fmt ''.2%'' (Fin current_vol) @ '' vs avg: ''
                            @ fmt ''.2%'' historical_vol @ '')'',
                  alert_value = pf_rdiv current_vol historical_vol,
                  source = None\<rparr>]
           else []
      else [])"

text \<open>One turn of the loop of \<open>analyze\<close>; \<open>continue\<close> returns the collections unchanged.\<close>

definition risk_symbol ::
  "formatter \<Rightarrow> risk_agent \<Rightarrow> string \<Rightarrow> dataframe \<Rightarrow> risk_acc \<Rightarrow> error + risk_acc" where
  "risk_symbol fmt self symb df acc =
     (if df_empty df \<or> ''Returns'' \<notin> set (columns df) then Inr acc
      else
        let recent_returns = tail 20 (dropna (column df ''Returns'')) in
        if length recent_returns < 5 then Inr acc
        else
          let current_vol = std_of recent_returns * sqrt 252 in
          case (if ''Drawdown'' \<in> set (columns df)
                then (case iloc_last (column df ''Drawdown'') of
                        Inl err \<Rightarrow> Inl err | Inr cell \<Rightarrow> Inr (Some cell))
                else Inr None) of
            Inl err \<Rightarrow> Inl err
          | Inr current_dd \<Rightarrow>
              (case dd_score_of (drawdown_threshold self) current_dd of
                 Inl err \<Rightarrow> Inl err
               | Inr dd_score \<Rightarrow>
                   let vol_score = vol_score_of (volatility_threshold self) current_vol;
                       risk_score = (vol_score + dd_score) / 2
                   in Inr \<lparr>acc_risk_scores = AList.update symb risk_score (acc_risk_scores acc),
                           acc_volatility = AList.update symb current_vol (acc_volatility acc),
                           acc_drawdowns = AList.update symb (dd_value current_dd) (acc_drawdowns acc),
                           acc_alerts =
                             acc_alerts acc
                             @ volatility_alerts fmt (volatility_threshold self) symb current_vol
                             @ drawdown_alerts fmt (drawdown_threshold self) symb (dd_value current_dd)
                             @ spike_alerts fmt symb df current_vol\<rparr>))"

fun risk_loop ::
  "formatter \<Rightarrow> risk_agent \<Rightarrow> (string \<times> dataframe) list \<Rightarrow> risk_acc \<Rightarrow> error + risk_acc" where
  "risk_loop fmt self [] acc = Inr acc"
| "risk_loop fmt self ((symb, df) # rest) acc =
     (case risk_symbol fmt self symb df acc of
        Inl err \<Rightarrow> Inl err
      | Inr acc' \<Rightarrow> risk_loop fmt self rest acc')"

text \<open>\<open>_calculate_confidence\<close>: one point per table of 60 rows or more, half a point from 20.\<close>

fun confidence_points :: "(string \<times> dataframe) list \<Rightarrow> real \<times> real \<Rightarrow> real \<times> real" where
  "confidence_points [] points = points"
| "confidence_points ((symb, df) # rest) (total_points, valid_points) =
     confidence_points rest
       (total_points + 1,
        valid_points + (if df_len df \<ge> 60 then 1 else if df_len df \<ge> 20 then 0.5 else 0))"

definition RiskAgent_get_risk_level :: "real \<Rightarrow> string" where
  "RiskAgent_get_risk_level score =
     (if score < 20 then ''LOW''
      else if score < 50 then ''MEDIUM''
      else if score < 80 then ''HIGH''
      else ''CRITICAL'')"

definition RiskAgent_calculate_confidence :: "(string \<times> dataframe) list \<Rightarrow> real" where
  "RiskAgent_calculate_confidence data =
     (if data = [] then 0
      else let (total_points, valid_points) = confidence_points data (0, 0)
           in if total_points > 0 then valid_points / total_points else 0)"

definition RiskAgent_analyze ::
  "formatter \<Rightarrow> risk_agent \<Rightarrow> (string \<times> dataframe) list \<Rightarrow> error + (risk_result \<times> risk_agent)" where
  "RiskAgent_analyze fmt self data =
     (if data = [] then Inr (RiskAgent_empty_result, self)
      else
        case risk_loop fmt self data
               \<lparr>acc_risk_scores = [], acc_volatility = [], acc_drawdowns = [], acc_alerts = []\<rparr> of
          Inl err \<Rightarrow> Inl err
        | Inr acc \<Rightarrow>
            let risk_scores = map snd (acc_risk_scores acc);
                avg_risk_score = (if risk_scores \<noteq> [] then mean risk_scores else 0);
                max_score = (if risk_scores \<noteq> [] then py_max risk_scores else 0);
                result =
                  \<lparr>overall_risk_score = avg_risk_score,
                   max_risk_score = max_score,
                   risk_level = RiskAgent_get_risk_level avg_risk_score,
                   risk_individual_scores = acc_risk_scores acc,
                   volatility = acc_volatility acc,
                   drawdowns = acc_drawdowns acc,
                   risk_alerts = acc_alerts acc,
                   risk_confidence = RiskAgent_calculate_confidence data\<rparr>
            in Inr (result, self\<lparr>risk_last_analysis := Some result\<rparr>))"

section \<open>The forecast agent (agents/forecast_agent.py)\<close>

text \<open>
  The feature table that \<open>_prepare_features\<close> returns has no missing cell (it ends with
  \<open>dropna\<close>): it is the list of its rows, each a total map from column name to number.
  \<open>_prepare_features\<close> itself (pandas rolling windows) and the regression of
  scikit-learn are parameters that may raise:
  \<^item> \<open>prepare\<close>: the feature table of a price table, or an exception;
  \<^item> \<open>fit\<close>: for a model type, training rows and targets, the fitted model as a
    function from a feature row to its prediction, or an exception. The model types are
    a linear regression and a random forest with the fixed seed 42, so the fitted
    model is a function of the training data.
  The message printed when a symbol fails is not modelled.
\<close>

type_synonym feature_table = "(string \<Rightarrow> real) list"

type_synonym fitter = "string \<Rightarrow> real list list \<Rightarrow> real list \<Rightarrow> error + (real list \<Rightarrow> real)"

record forecast_agent =
  forecast_days :: nat
  model_type :: string
  fc_last_analysis :: "forecast_result option"

definition ForecastAgent_init :: forecast_agent where
  "ForecastAgent_init = \<lparr>forecast_days = 5, model_type = ''linear'', fc_last_analysis = None\<rparr>"

definition ForecastAgent_empty_result :: forecast_result where
  "ForecastAgent_empty_result =
     \<lparr>forecasts = [], market_sentiment = ''UNKNOWN'', average_prediction = 0,
      forecast_confidence = 0\<rparr>"

definition feature_cols :: "string list" where
  "feature_cols = [''SMA_5'', ''SMA_10'', ''SMA_20'', ''Momentum_5'', ''Momentum_10'',
                   ''Vol_5'', ''Vol_20'', ''Volume_Ratio'', ''RSI'']"

definition feature_row :: "(string \<Rightarrow> real) \<Rightarrow> real list" where
  "feature_row r = map r feature_cols"

text \<open>\<open>sum((recent_pred > 0) == (y_recent > 0))\<close>: the positions where the signs agree.\<close>

definition correct_direction :: "real list \<Rightarrow> real list \<Rightarrow> nat" where
  "correct_direction recent_pred y_recent =
     length (filter (\<lambda>(p, y). (p > 0) = (y > 0)) (zip recent_pred y_recent))"

definition ForecastAgent_train_and_predict ::
  "fitter \<Rightarrow> forecast_agent \<Rightarrow> feature_table \<Rightarrow> error + (real \<times> real \<times> string)" where
  "ForecastAgent_train_and_predict fit self features_df =
     (let X = map feature_row (iloc_but_last 5 features_df);
          y = map (\<lambda>r. r ''Target'') (iloc_but_last 5 features_df)
      in case fit (model_type self) X y of
           Inl err \<Rightarrow> Inl err
         | Inr model \<Rightarrow>
             (if features_df = [] then Inl (Raised ''ValueError'')
              else
                  let latest = last features_df;
                      prediction = model (feature_row latest);
                      confidence =
                        (if length features_df > 10
                         then
                           let recent = butlast (tail 10 features_df);
                               recent_pred = map (\<lambda>r. model (feature_row r)) recent;
                               y_recent = map (\<lambda>r. r ''Target'') recent
                           in real (correct_direction recent_pred y_recent)
                              / real (length y_recent)
                         else 0.5);
                      sma_5 = latest ''SMA_5'';
                      sma_20 = latest ''SMA_20'';
                      trnd =
                        (if sma_5 > sma_20 * 1.02 then ''UPTREND''
                         else if sma_5 < sma_20 * 0.98 then ''DOWNTREND''
                         else ''SIDEWAYS'')
                  in Inr (prediction, confidence, trnd)))"

record forecast_acc =
  acc_forecasts :: "(string \<times> forecast) list"
  acc_trends :: "(string \<times> string) list"
  acc_confidences :: "(string \<times> real) list"

text \<open>
  One turn of the loop of \<open>analyze\<close>. The \<open>try\<close> block covers \<open>_prepare_features\<close>
  and \<open>_train_and_predict\<close>; its \<open>except Exception\<close> continues with the next symbol.
\<close>

definition forecast_symbol ::
  "(dataframe \<Rightarrow> error + feature_table) \<Rightarrow> fitter \<Rightarrow> forecast_agent \<Rightarrow> string \<Rightarrow> dataframe
     \<Rightarrow> forecast_acc \<Rightarrow> forecast_acc" where
  "forecast_symbol prepare fit self symb df acc =
     (if df_empty df \<or> df_len df < 30 then acc
      else
        case prepare df of
          Inl err \<Rightarrow> acc
        | Inr features_df \<Rightarrow>
            if features_df = [] then acc
            else
              (case ForecastAgent_train_and_predict fit self features_df of
                 Inl err \<Rightarrow> acc
               | Inr (prediction, confidence, trnd) \<Rightarrow>
                   \<lparr>acc_forecasts =
                      AList.update symb
                        \<lparr>predicted_return = prediction,
                         predicted_direction =
                           (if prediction > 0 then ''UP''
                            else if prediction < 0 then ''DOWN'' else ''FLAT''),
                         fc_confidence = confidence,
                         trend = trnd\<rparr>
                        (acc_forecasts acc),
                    acc_trends = AList.update symb trnd (acc_trends acc),
                    acc_confidences = AList.update symb confidence (acc_confidences acc)\<rparr>))"

fun forecast_loop ::
  "(dataframe \<Rightarrow> error + feature_table) \<Rightarrow> fitter \<Rightarrow> forecast_agent
     \<Rightarrow> (string \<times> dataframe) list \<Rightarrow> forecast_acc \<Rightarrow> forecast_acc" where
  "forecast_loop prepare fit self [] acc = acc"
| "forecast_loop prepare fit self ((symb, df) # rest) acc =
     forecast_loop prepare fit self rest (forecast_symbol prepare fit self symb df acc)"

definition ForecastAgent_analyze ::
  "(dataframe \<Rightarrow> error + feature_table) \<Rightarrow> fitter \<Rightarrow> forecast_agent
     \<Rightarrow> (string \<times> dataframe) list \<Rightarrow> forecast_result \<times> forecast_agent" where
  "ForecastAgent_analyze prepare fit self data =
     (if data = [] then (ForecastAgent_empty_result, self)
      else
        let acc = forecast_loop prepare fit self data
                    \<lparr>acc_forecasts = [], acc_trends = [], acc_confidences = []\<rparr>;
            fcs = map snd (acc_forecasts acc);
            bullish_count = length (filter (\<lambda>f. predicted_direction f = ''UP'') fcs);
            bearish_count = length (filter (\<lambda>f. predicted_direction f = ''DOWN'') fcs);
            result =
              \<lparr>forecasts = acc_forecasts acc,
               market_sentiment =
                 (if fcs \<noteq> []
                  then (if bullish_count > bearish_count then ''BULLISH''
                        else if bearish_count > bullish_count then ''BEARISH''
                        else ''NEUTRAL'')
                  else ''UNKNOWN''),
               average_prediction =
                 (if fcs \<noteq> [] then mean (map predicted_return fcs) else 0),
               forecast_confidence =
                 (if acc_confidences acc \<noteq> [] then mean (map snd (acc_confidences acc)) else 0)\<rparr>
        in (result, self\<lparr>fc_last_analysis := Some result\<rparr>))"

text \<open>A symbol faults when its table reaches the \<open>try\<close> block and an exception is raised there.\<close>

definition forecast_faults ::
  "(dataframe \<Rightarrow> error + feature_table) \<Rightarrow> fitter \<Rightarrow> forecast_agent \<Rightarrow> dataframe \<Rightarrow> bool" where
  "forecast_faults prepare fit self df =
     (\<not> df_empty df \<and> 30 \<le> df_len df
      \<and> (case prepare df of
            Inl err \<Rightarrow> True
          | Inr features_df \<Rightarrow>
              features_df \<noteq> []
              \<and> (case ForecastAgent_train_and_predict fit self features_df of
                    Inl err \<Rightarrow> True | Inr res \<Rightarrow> False)))"

section \<open>The sentiment agent (backend/agents/sentiment_agent.py)\<close>

text \<open>
  The lexicon scorer (VADER's compound score of a headline) is a parameter,
  \<open>polarity\<close>.
\<close>

record sentiment_agent =
  sent_last_analysis :: "sentiment_result option"

definition SentimentAgent_empty_result :: sentiment_result where
  "SentimentAgent_empty_result =
     \<lparr>overall_score = 0, overall_label = ''NEUTRAL'', sent_individual_scores = [],
      individual_labels = [], article_counts = [], distribution_positive = 0,
      distribution_negative = 0, distribution_neutral = 0, sent_alerts = [],
      sent_confidence = 0\<rparr>"

definition SentimentAgent_get_sentiment_label :: "real \<Rightarrow> string" where
  "SentimentAgent_get_sentiment_label score =
     (if score > 0.2 then ''POSITIVE''
      else if score < - 0.2 then ''NEGATIVE''
      else ''NEUTRAL'')"

text \<open>The inner loop: the scores of the articles with a non-empty title.\<close>

fun title_scores :: "(string \<Rightarrow> real) \<Rightarrow> article list \<Rightarrow> real list" where
  "title_scores polarity [] = []"
| "title_scores polarity (a # articles) =
     (let t = (case title a of None \<Rightarrow> [] | Some t \<Rightarrow> t)
      in if t = [] then title_scores polarity articles
         else polarity t # title_scores polarity articles)"

record sentiment_acc =
  acc_sentiment_scores :: "(string \<times> real) list"
  acc_sentiment_labels :: "(string \<times> string) list"
  acc_article_counts :: "(string \<times> nat) list"

definition sentiment_symbol ::
  "(string \<Rightarrow> real) \<Rightarrow> string \<Rightarrow> article list \<Rightarrow> sentiment_acc \<Rightarrow> sentiment_acc" where
  "sentiment_symbol polarity symb articles acc =
     (if articles = [] then acc
      else
        let scores = title_scores polarity articles in
        if scores \<noteq> []
        then
          let avg_score = mean scores
          in \<lparr>acc_sentiment_scores = AList.update symb avg_score (acc_sentiment_scores acc),
              acc_sentiment_labels =
                AList.update symb (SentimentAgent_get_sentiment_label avg_score)
                  (acc_sentiment_labels acc),
              acc_article_counts = AList.update symb (length scores) (acc_article_counts acc)\<rparr>
        else
          \<lparr>acc_sentiment_scores = AList.update symb 0 (acc_sentiment_scores acc),
           acc_sentiment_labels = AList.update symb ''NEUTRAL'' (acc_sentiment_labels acc),
           acc_article_counts = AList.update symb 0 (acc_article_counts acc)\<rparr>)"

fun sentiment_loop ::
  "(string \<Rightarrow> real) \<Rightarrow> (string \<times> article list) list \<Rightarrow> sentiment_acc \<Rightarrow> sentiment_acc" where
  "sentiment_loop polarity [] acc = acc"
| "sentiment_loop polarity ((symb, articles) # rest) acc =
     sentiment_loop polarity rest (sentiment_symbol polarity symb articles acc)"

fun sentiment_alerts :: "formatter \<Rightarrow> (string \<times> real) list \<Rightarrow> alert list" where
  "sentiment_alerts fmt [] = []"
| "sentiment_alerts fmt ((symb, score) # rest) =
     (if score < - 0.5
      then [\<lparr>symbol = Some symb, alert_type = ''NEGATIVE_SENTIMENT'',
             severity = Some (if score < - 0.7 then ''HIGH'' else ''MEDIUM''),
             message = symb @ '': Strong negative sentiment detected (''
                       @ fmt ''.2f'' (Fin score) @ '')'',
             alert_value = Fin score, source = None\<rparr>]
      else if score > 0.5
      then [\<lparr>symbol = Some symb, alert_type = ''POSITIVE_SENTIMENT'',
             severity = Some ''LOW'',
             message = symb @ '': Strong positive sentiment detected (''
                       @ fmt ''.2f'' (Fin score) @ '')'',
             alert_value = Fin score, source = None\<rparr>]
      else [])
     @ sentiment_alerts fmt rest"

definition SentimentAgent_calculate_confidence :: "(string \<times> nat) list \<Rightarrow> real" where
  "SentimentAgent_calculate_confidence counts =
     (if counts = [] then 0
      else let avg_articles = mean (map (\<lambda>(symb, n). real n) counts)
           in min 1 (avg_articles / 10))"

definition count_label :: "string \<Rightarrow> (string \<times> string) list \<Rightarrow> nat" where
  "count_label l labels = length (filter (\<lambda>(symb, label). label = l) labels)"

definition SentimentAgent_analyze ::
  "formatter \<Rightarrow> (string \<Rightarrow> real) \<Rightarrow> sentiment_agent \<Rightarrow> (string \<times> article list) list
     \<Rightarrow> sentiment_result \<times> sentiment_agent" where
  "SentimentAgent_analyze fmt polarity self news_data =
     (if news_data = [] then (SentimentAgent_empty_result, self)
      else
        let acc = sentiment_loop polarity news_data
                    \<lparr>acc_sentiment_scores = [], acc_sentiment_labels = [],
                     acc_article_counts = []\<rparr>;
            sentiment_scores = acc_sentiment_scores acc;
            sentiment_labels = acc_sentiment_labels acc;
            has_scores = (sentiment_scores \<noteq> []);
            score = (if has_scores then mean (map snd sentiment_scores) else 0);
            result =
              \<lparr>overall_score = score,
               overall_label =
                 (if has_scores then SentimentAgent_get_sentiment_label score else ''NEUTRAL''),
               sent_individual_scores = sentiment_scores,
               individual_labels = sentiment_labels,
               article_counts = acc_article_counts acc,
               distribution_positive =
                 (if has_scores then count_label ''POSITIVE'' sentiment_labels else 0),
               distribution_negative =
                 (if has_scores then count_label ''NEGATIVE'' sentiment_labels else 0),
               distribution_neutral =
                 (if has_scores then count_label ''NEUTRAL'' sentiment_labels else 0),
               sent_alerts = sentiment_alerts fmt sentiment_scores,
               sent_confidence = SentimentAgent_calculate_confidence (acc_article_counts acc)\<rparr>
        in (result, self\<lparr>sent_last_analysis := Some result\<rparr>))"

section \<open>The correlation agent (agents/correlation_agent.py)\<close>

text \<open>
  \<open>pd.DataFrame(returns_dict).dropna()\<close> aligns the return series of the symbols on
  their dates and keeps the dates on which every symbol has a return. The dates of a
  price table are strictly increasing (the data supplier's contract); the union of the
  indexes is then the sorted list of all dates. The aligned table is the list of its
  columns, in the order of the symbols, each with as many values as kept dates.
\<close>

record correlation_agent =
  high_correlation_threshold :: real
  corr_last_analysis :: "correlation_result option"

definition CorrelationAgent_empty_result :: correlation_result where
  "CorrelationAgent_empty_result =
     \<lparr>correlation_matrix = [], average_correlation = Fin 0, diversification_score = 0,
      high_correlations = [], correlation_increases = [], correlation_risk_level = ''UNKNOWN'',
      corr_alerts = [], corr_confidence = 0\<rparr>"

definition series :: "dataframe \<Rightarrow> string \<Rightarrow> (nat \<times> real option) list" where
  "series df name = map (\<lambda>(date, r). (date, r name)) (rows df)"

definition has_value :: "(nat \<times> real option) list \<Rightarrow> nat \<Rightarrow> bool" where
  "has_value ser date = (case map_of ser date of Some (Some v) \<Rightarrow> True | _ \<Rightarrow> False)"

definition aligned_dates :: "(string \<times> (nat \<times> real option) list) list \<Rightarrow> nat list" where
  "aligned_dates returns_dict =
     filter (\<lambda>date. list_all (\<lambda>(symb, ser). has_value ser date) returns_dict)
       (sort (remdups (concat (map (\<lambda>(symb, ser). map fst ser) returns_dict))))"

definition aligned_column :: "(nat \<times> real option) list \<Rightarrow> nat list \<Rightarrow> real list" where
  "aligned_column ser dates =
     concat (map (\<lambda>date. case map_of ser date of Some (Some v) \<Rightarrow> [v] | _ \<Rightarrow> []) dates)"

definition aligned_returns ::
  "(string \<times> (nat \<times> real option) list) list \<Rightarrow> (string \<times> real list) list" where
  "aligned_returns returns_dict =
     map (\<lambda>(symb, ser). (symb, aligned_column ser (aligned_dates returns_dict))) returns_dict"

text \<open>
  Pearson's correlation of two columns of equal length, as \<open>DataFrame.corr()\<close> computes
  it: \<open>nan\<close> where one of the two has no variation.
\<close>

definition pearson :: "real list \<Rightarrow> real list \<Rightarrow> pyfloat" where
  "pearson xs ys =
     (let ssx = sum_list (map (\<lambda>x. (x - mean xs)\<^sup>2) xs);
          ssy = sum_list (map (\<lambda>y. (y - mean ys)\<^sup>2) ys);
          cov = sum_list (map (\<lambda>(x, y). (x - mean xs) * (y - mean ys)) (zip xs ys))
      in if sqrt (ssx * ssy) = 0 then NaN else Fin (cov / sqrt (ssx * ssy)))"

text \<open>The loop \<open>for i in range(n): for j in range(i + 1, n)\<close> over the symbols.\<close>

fun pairs :: "'a list \<Rightarrow> ('a \<times> 'a) list" where
  "pairs [] = []"
| "pairs (x # xs) = map (Pair x) xs @ pairs xs"

fun build_returns_dict ::
  "(string \<times> dataframe) list \<Rightarrow> (string \<times> (nat \<times> real option) list) list
     \<Rightarrow> (string \<times> (nat \<times> real option) list) list" where
  "build_returns_dict [] returns_dict = returns_dict"
| "build_returns_dict ((symb, df) # rest) returns_dict =
     build_returns_dict rest
       (if ''Returns'' \<in> set (columns df) \<and> series df ''Returns'' \<noteq> []
        then AList.update symb (series df ''Returns'') returns_dict
        else returns_dict)"

definition high_correlations_of ::
  "real \<Rightarrow> (string \<times> real list) list \<Rightarrow> high_correlation list" where
  "high_correlations_of threshold returns_df =
     concat (map (\<lambda>((sym1, c1), (sym2, c2)).
                   let corr_value = pearson c1 c2
                   in if pf_less (Fin threshold) (pf_abs corr_value)
                      then [\<lparr>hc_pair = sym1 @ ''-'' @ sym2, hc_correlation = corr_value,
                             hc_type = (if pf_less (Fin 0) corr_value then ''positive''
                                        else ''negative'')\<rparr>]
                      else [])
                 (pairs returns_df))"

definition correlation_increases_of ::
  "nat \<Rightarrow> nat \<Rightarrow> (string \<times> real list) list \<Rightarrow> correlation_increase list" where
  "correlation_increases_of n_obs recent_window returns_df =
     concat (map (\<lambda>((sym1, c1), (sym2, c2)).
                   if n_obs > 60
                   then
                     let recent_corr_value = pearson (tail recent_window c1) (tail recent_window c2);
                         historical_corr =
                           pearson (iloc_but_last recent_window c1) (iloc_but_last recent_window c2)
                     in if pf_less (pf_plus (pf_abs historical_corr) 0.2) (pf_abs recent_corr_value)
                        then [\<lparr>ci_pair = sym1 @ ''-'' @ sym2, ci_recent = recent_corr_value,
                               ci_historical = historical_corr,
                               ci_change = pf_minus recent_corr_value historical_corr\<rparr>]
                        else []
                   else [])
                 (pairs returns_df))"

text \<open>
  The mean of the entries above the diagonal; \<open>stack()\<close> drops the \<open>nan\<close> entries, and the
  mean of none is \<open>nan\<close>.
\<close>

definition average_correlation_of :: "(string \<times> real list) list \<Rightarrow> pyfloat" where
  "average_correlation_of returns_df =
     np_mean (concat (map (\<lambda>((sym1, c1), (sym2, c2)).
                             case pearson c1 c2 of Fin v \<Rightarrow> [v] | other \<Rightarrow> [])
                          (pairs returns_df)))"

text \<open>
  \<open>max(0, 100 * (1 - abs(avg_correlation)))\<close>: Python's \<open>max(0, x)\<close> is 0 unless
  \<open>x > 0\<close>, so it is 0 on \<open>nan\<close>.
\<close>

definition diversification_score_of :: "pyfloat \<Rightarrow> real" where
  "diversification_score_of avg_correlation =
     (case avg_correlation of
        Fin a \<Rightarrow> (if 100 * (1 - \<bar>a\<bar>) > 0 then 100 * (1 - \<bar>a\<bar>) else 0)
      | other \<Rightarrow> 0)"

definition correlation_alerts ::
  "formatter \<Rightarrow> real \<Rightarrow> pyfloat \<Rightarrow> correlation_increase list \<Rightarrow> alert list" where
  "correlation_alerts fmt threshold avg_correlation increases =
     (if pf_less (Fin threshold) (pf_abs avg_correlation)
      then [\<lparr>symbol = None, alert_type = ''HIGH_PORTFOLIO_CORRELATION'', severity = Some ''HIGH'',
             message = ''Portfolio shows high average correlation (''
                       @ fmt ''.2f'' avg_correlation @ '')'',
             alert_value = avg_correlation, source = None\<rparr>]
      else [])
     @ map (\<lambda>corr_increase.
              \<lparr>symbol = None, alert_type = ''CORRELATION_INCREASE'', severity = Some ''MEDIUM'',
               message = ci_pair corr_increase @ '': Correlation increased from ''
                         @ fmt ''.2f'' (ci_historical corr_increase) @ '' to ''
                         @ fmt ''.2f'' (ci_recent corr_increase),
               alert_value = ci_change corr_increase, source = None\<rparr>)
         increases"

definition CorrelationAgent_calculate_confidence :: "nat \<Rightarrow> real" where
  "CorrelationAgent_calculate_confidence n_obs =
     (if n_obs = 0 then 0
      else if n_obs \<ge> 60 then 1
      else if n_obs \<ge> 30 then 0.8
      else if n_obs \<ge> 20 then 0.6
      else 0.4)"

definition CorrelationAgent_analyze ::
  "formatter \<Rightarrow> correlation_agent \<Rightarrow> (string \<times> dataframe) list
     \<Rightarrow> correlation_result \<times> correlation_agent" where
  "CorrelationAgent_analyze fmt self data =
     (if data = [] \<or> length data < 2 then (CorrelationAgent_empty_result, self)
      else
        let returns_dict = build_returns_dict data [] in
        if length returns_dict < 2 then (CorrelationAgent_empty_result, self)
        else
          let returns_df = aligned_returns returns_dict;
              n_obs = length (aligned_dates returns_dict)
          in
          if n_obs = 0 \<or> n_obs < 20 then (CorrelationAgent_empty_result, self)
          else
            let recent_window = min 20 (n_obs div 3);
                increases = correlation_increases_of n_obs recent_window returns_df;
                avg_correlation = average_correlation_of returns_df;
                result =
                  \<lparr>correlation_matrix =
                     map (\<lambda>(sym1, c1). (sym1, map (\<lambda>(sym2, c2). (sym2, pearson c1 c2)) returns_df))
                       returns_df,
                   average_correlation = avg_correlation,
                   diversification_score = diversification_score_of avg_correlation,
                   high_correlations =
                     high_correlations_of (high_correlation_threshold self) returns_df,
                   correlation_increases = increases,
                   correlation_risk_level =
                     (if pf_less (Fin 0.8) (pf_abs avg_correlation) then ''HIGH''
                      else if pf_less (Fin 0.6) (pf_abs avg_correlation) then ''MEDIUM''
                      else ''LOW''),
                   corr_alerts =
                     correlation_alerts fmt (high_correlation_threshold self) avg_correlation
                       increases,
                   corr_confidence = CorrelationAgent_calculate_confidence n_obs\<rparr>
            in (result, self\<lparr>corr_last_analysis := Some result\<rparr>))"

section \<open>The advisory agent (backend/agents/advisory_agent.py)\<close>

record advisory_agent =
  adv_last_analysis :: "advisory_result option"

definition generate_overall_recommendation :: "string \<Rightarrow> string \<Rightarrow> string \<Rightarrow> string \<Rightarrow> string" where
  "generate_overall_recommendation risk_lvl market_sent sentiment_label corr_risk =
     (if risk_lvl = ''CRITICAL'' then ''REDUCE_RISK_IMMEDIATELY''
      else if risk_lvl = ''HIGH'' \<and> (market_sent = ''BEARISH'' \<or> sentiment_label = ''NEGATIVE'')
        then ''DEFENSIVE_STANCE''
      else if risk_lvl = ''HIGH'' then ''MONITOR_CLOSELY''
      else if risk_lvl = ''MEDIUM'' \<and> market_sent = ''BEARISH'' \<and> sentiment_label = ''NEGATIVE''
        then ''CAUTIOUS_APPROACH''
      else if risk_lvl = ''LOW'' \<and> market_sent = ''BULLISH'' \<and> sentiment_label = ''POSITIVE''
        then ''FAVORABLE_CONDITIONS''
      else ''MAINTAIN_CURRENT_STRATEGY'')"

definition join_spaces :: "string list \<Rightarrow> string" where
  "join_spaces parts = (case parts of [] \<Rightarrow> [] | p # ps \<Rightarrow> foldl (\<lambda>acc q. acc @ '' '' @ q) p ps)"

definition generate_summary :: "string \<Rightarrow> string \<Rightarrow> string \<Rightarrow> real \<Rightarrow> string" where
  "generate_summary risk_lvl market_sent sentiment_label diversification =
     join_spaces
       ((if risk_lvl = ''HIGH'' \<or> risk_lvl = ''CRITICAL''
         then [''Portfolio is experiencing '' @ str_lower risk_lvl @ '' volatility.'']
         else [''Portfolio risk is currently '' @ str_lower risk_lvl @ ''.''])
        @ (if market_sent = ''BEARISH'' \<and> sentiment_label = ''NEGATIVE''
           then [''Both technical and sentiment indicators suggest downward pressure.'']
           else if market_sent = ''BULLISH'' \<and> sentiment_label = ''POSITIVE''
           then [''Both technical and sentiment indicators suggest positive momentum.'']
           else [''Technical outlook is '' @ str_lower market_sent @ '' while sentiment is ''
                   @ str_lower sentiment_label @ ''.''])
        @ (if diversification > 70 then [''Portfolio shows good diversification.'']
           else if diversification < 40 then [''Portfolio diversification could be improved.'']
           else []))"

definition priority_order :: "(string \<times> nat) list" where
  "priority_order = [(''CRITICAL'', 0), (''HIGH'', 1), (''MEDIUM'', 2), (''LOW'', 3)]"

text \<open>
  \<open>sorted(priority_actions, key=lambda x: {...}[x['priority']])\<close>: the key of each action
  is computed first, and a priority that is no key of the dict raises KeyError.
\<close>

fun priority_keys :: "priority_action list \<Rightarrow> error + (nat \<times> priority_action) list" where
  "priority_keys [] = Inr []"
| "priority_keys (x # xs) =
     (case map_of priority_order (priority x) of
        None \<Rightarrow> Inl (KeyError (priority x))
      | Some k \<Rightarrow> (case priority_keys xs of Inl err \<Rightarrow> Inl err | Inr ks \<Rightarrow> Inr ((k, x) # ks)))"

definition sorted_by_priority :: "priority_action list \<Rightarrow> error + priority_action list" where
  "sorted_by_priority acts =
     (case priority_keys acts of
        Inl err \<Rightarrow> Inl err
      | Inr ks \<Rightarrow> Inr (map snd (sort_key fst ks)))"

text \<open>
  \<open>analyze\<close> appends to three lists (\<open>priority_actions\<close>, \<open>recommendations\<close>,
  \<open>risk_factors\<close>) in four successive blocks: risk situation, forecast and sentiment
  alignment, correlation risk, alert combinations. Each list is given here as the
  concatenation of what the blocks append to it, in the order of the blocks.
\<close>

definition is_high_risk :: "risk_result \<Rightarrow> bool" where
  "is_high_risk risk_analysis =
     (risk_level risk_analysis = ''HIGH'' \<or> risk_level risk_analysis = ''CRITICAL'')"

definition both_negative :: "forecast_result \<Rightarrow> sentiment_result \<Rightarrow> bool" where
  "both_negative forecast_analysis sentiment_analysis =
     (market_sentiment forecast_analysis = ''BEARISH''
      \<and> overall_label sentiment_analysis = ''NEGATIVE'')"

definition both_positive :: "forecast_result \<Rightarrow> sentiment_result \<Rightarrow> bool" where
  "both_positive forecast_analysis sentiment_analysis =
     (market_sentiment forecast_analysis = ''BULLISH''
      \<and> overall_label sentiment_analysis = ''POSITIVE'')"

definition advisory_risk_factors ::
  "risk_result \<Rightarrow> forecast_result \<Rightarrow> sentiment_result \<Rightarrow> correlation_result \<Rightarrow> string list" where
  "advisory_risk_factors risk_analysis forecast_analysis sentiment_analysis correlation_analysis =
     (if is_high_risk risk_analysis then [''High portfolio volatility detected''] else [])
     @ (if both_negative forecast_analysis sentiment_analysis
        then [''Bearish forecast aligned with negative sentiment'']
        else if both_positive forecast_analysis sentiment_analysis then []
        else if market_sentiment forecast_analysis \<noteq> overall_label sentiment_analysis
        then [''Divergence between technical and sentiment signals'']
        else [])
     @ (if correlation_risk_level correlation_analysis = ''HIGH''
        then [''High correlation reduces diversification benefit''] else [])"

definition advisory_priority_actions ::
  "formatter \<Rightarrow> risk_result \<Rightarrow> forecast_result \<Rightarrow> sentiment_result \<Rightarrow> correlation_result
     \<Rightarrow> priority_action list" where
  "advisory_priority_actions fmt risk_analysis forecast_analysis sentiment_analysis
       correlation_analysis =
     (let high_vol_alerts =
            filter (\<lambda>a. alert_type a = ''HIGH_VOLATILITY'' \<or> alert_type a = ''VOLATILITY_SPIKE'')
              (risk_alerts risk_analysis);
          neg_sent_alerts =
            filter (\<lambda>a. alert_type a = ''NEGATIVE_SENTIMENT'') (sent_alerts sentiment_analysis)
      in
        (if is_high_risk risk_analysis
         then [\<lparr>action = ''REDUCE_EXPOSURE'', priority = ''HIGH'',
                reason = ''Risk level is '' @ risk_level risk_analysis,
                details = ''Consider reducing position sizes or taking profits on volatile assets''\<rparr>]
         else [])
        @ (if both_negative forecast_analysis sentiment_analysis
           then [\<lparr>action = ''DEFENSIVE_POSITIONING'', priority = ''HIGH'',
                  reason = ''Both technical and sentiment indicators are negative'',
                  details = ''Consider defensive sectors or hedging strategies''\<rparr>]
           else [])
        @ (if correlation_risk_level correlation_analysis = ''HIGH''
           then [\<lparr>action = ''IMPROVE_DIVERSIFICATION'', priority = ''MEDIUM'',
                  reason = ''Average correlation is ''
                           @ fmt ''.2f'' (average_correlation correlation_analysis),
                  details = ''Add uncorrelated assets or reduce exposure to correlated positions''\<rparr>]
           else [])
        @ (if high_vol_alerts \<noteq> [] \<and> neg_sent_alerts \<noteq> []
           then [\<lparr>action = ''RISK_REVIEW'', priority = ''CRITICAL'',
                  reason = ''Combination of high volatility and negative sentiment'',
                  details = ''Immediate review of portfolio risk exposure recommended''\<rparr>]
           else []))"

definition advisory_recommendations ::
  "formatter \<Rightarrow> risk_result \<Rightarrow> forecast_result \<Rightarrow> sentiment_result \<Rightarrow> correlation_result
     \<Rightarrow> recommendation list" where
  "advisory_recommendations fmt risk_analysis forecast_analysis sentiment_analysis
       correlation_analysis =
     (let diversification = diversification_score correlation_analysis in
        (if is_high_risk risk_analysis
         then [\<lparr>category = ''RISK_MANAGEMENT'',
                recommendation_text = ''Reduce overall portfolio exposure'',
                rationale = ''Current risk score (''
                            @ fmt ''.1f'' (Fin (overall_risk_score risk_analysis))
                            @ '') indicates elevated volatility'',
                urgency = ''HIGH''\<rparr>]
         else [])
        @ (if both_negative forecast_analysis sentiment_analysis
           then [\<lparr>category = ''MARKET_OUTLOOK'',
                  recommendation_text = ''Adopt defensive positioning'',
                  rationale = ''Technical forecast and news sentiment both indicate downward pressure'',
                  urgency = ''HIGH''\<rparr>]
           else if both_positive forecast_analysis sentiment_analysis
           then [\<lparr>category = ''MARKET_OUTLOOK'',
                  recommendation_text = ''Favorable conditions for growth positions'',
                  rationale = ''Technical forecast and news sentiment both indicate upward momentum'',
                  urgency = ''LOW''\<rparr>]
           else if market_sentiment forecast_analysis \<noteq> overall_label sentiment_analysis
           then [\<lparr>category = ''MARKET_OUTLOOK'',
                  recommendation_text = ''Exercise caution - mixed signals detected'',
                  rationale = ''Technical forecast ('' @ market_sentiment forecast_analysis
                              @ '') diverges from sentiment (''
                              @ overall_label sentiment_analysis @ '')'',
                  urgency = ''MEDIUM''\<rparr>]
           else [])
        @ (if correlation_risk_level correlation_analysis = ''HIGH''
           then [\<lparr>category = ''DIVERSIFICATION'',
                  recommendation_text = ''Improve portfolio diversification'',
                  rationale = ''Current diversification score (''
                              @ fmt ''.1f'' (Fin diversification) @ ''/100) is low'',
                  urgency = ''MEDIUM''\<rparr>]
           else if diversification > 70
           then [\<lparr>category = ''DIVERSIFICATION'',
                  recommendation_text = ''Portfolio shows good diversification'',
                  rationale = ''Diversification score ('' @ fmt ''.1f'' (Fin diversification)
                              @ ''/100) indicates low correlation risk'',
                  urgency = ''LOW''\<rparr>]
           else []))"

definition advisory_confidence ::
  "risk_result \<Rightarrow> forecast_result \<Rightarrow> sentiment_result \<Rightarrow> correlation_result \<Rightarrow> pyfloat" where
  "advisory_confidence risk_analysis forecast_analysis sentiment_analysis correlation_analysis =
     (let confidences =
            [risk_confidence risk_analysis, forecast_confidence forecast_analysis,
             sent_confidence sentiment_analysis, corr_confidence correlation_analysis]
      in np_mean (filter (\<lambda>c. c > 0) confidences))"

definition AdvisoryAgent_analyze ::
  "formatter \<Rightarrow> advisory_agent \<Rightarrow> risk_result \<Rightarrow> forecast_result \<Rightarrow> sentiment_result
     \<Rightarrow> correlation_result \<Rightarrow> error + (advisory_result \<times> advisory_agent)" where
  "AdvisoryAgent_analyze fmt self risk_analysis forecast_analysis sentiment_analysis
       correlation_analysis =
     (case sorted_by_priority
             (advisory_priority_actions fmt risk_analysis forecast_analysis sentiment_analysis
                correlation_analysis) of
        Inl err \<Rightarrow> Inl err
      | Inr sorted_actions \<Rightarrow>
          let result =
            \<lparr>overall_recommendation =
               generate_overall_recommendation (risk_level risk_analysis)
                 (market_sentiment forecast_analysis) (overall_label sentiment_analysis)
                 (correlation_risk_level correlation_analysis),
             priority_actions = sorted_actions,
             recommendations =
               advisory_recommendations fmt risk_analysis forecast_analysis sentiment_analysis
                 correlation_analysis,
             risk_factors =
               advisory_risk_factors risk_analysis forecast_analysis sentiment_analysis
                 correlation_analysis,
             adv_confidence =
               advisory_confidence risk_analysis forecast_analysis sentiment_analysis
                 correlation_analysis,
             summary =
               generate_summary (risk_level risk_analysis) (market_sentiment forecast_analysis)
                 (overall_label sentiment_analysis) (diversification_score correlation_analysis)\<rparr>
          in Inr (result, self\<lparr>adv_last_analysis := Some result\<rparr>))"

section \<open>The engine (core/engine.py)\<close>

text \<open>
  The engine's fields. \<open>agent_results\<close> is a dict in insertion order; \<open>{}\<close> is the
  empty list.
\<close>

record engine =
  symbols :: "string list"
  market_data :: "(string \<times> dataframe) list"
  current_prices :: "(string \<times> price_info) list"
  news_data :: "(string \<times> article list) list"
  agent_results :: "(string \<times> agent_result) list"
  unified_score :: real

definition ARIONEngine_init :: "string list \<Rightarrow> engine" where
  "ARIONEngine_init syms =
     \<lparr>symbols = syms, market_data = [], current_prices = [], news_data = [],
      agent_results = [], unified_score = 0\<rparr>"

text \<open>
  The objects the engine holds and calls: the data fetcher and the five agents. Each
  call is an outcome, a value or an exception. An agent is called once in a run, so its
  own \<open>last_analysis\<close> is left out here.
\<close>

record collaborators =
  fetch_stock_data :: "string list \<Rightarrow> string \<Rightarrow> error + (string \<times> dataframe) list"
  fetch_current_prices :: "string list \<Rightarrow> error + (string \<times> price_info) list"
  fetch_news :: "string list \<Rightarrow> error + (string \<times> article list) list"
  calculate_portfolio_metrics :: "(string \<times> dataframe) list \<Rightarrow> error + (string \<times> pyfloat) list"
  risk_agent_analyze :: "(string \<times> dataframe) list \<Rightarrow> error + risk_result"
  forecast_agent_analyze :: "(string \<times> dataframe) list \<Rightarrow> error + forecast_result"
  sentiment_agent_analyze :: "(string \<times> article list) list \<Rightarrow> error + sentiment_result"
  correlation_agent_analyze :: "(string \<times> dataframe) list \<Rightarrow> error + correlation_result"
  advisory_agent_analyze ::
    "risk_result \<Rightarrow> forecast_result \<Rightarrow> sentiment_result \<Rightarrow> correlation_result
       \<Rightarrow> error + advisory_result"

text \<open>
  \<open>fetch_all_data\<close>: the three fetches in a \<open>try\<close> block; an exception gives False,
  with the fields fetched before it already stored.
\<close>

definition fetch_all_data :: "collaborators \<Rightarrow> engine \<Rightarrow> string \<Rightarrow> bool \<times> engine" where
  "fetch_all_data c e period =
     (case fetch_stock_data c (symbols e) period of
        Inl err \<Rightarrow> (False, e)
      | Inr md \<Rightarrow>
          (case fetch_current_prices c (symbols e) of
             Inl err \<Rightarrow> (False, e\<lparr>market_data := md\<rparr>)
           | Inr cp \<Rightarrow>
               (case fetch_news c (symbols e) of
                  Inl err \<Rightarrow> (False, e\<lparr>market_data := md, current_prices := cp\<rparr>)
                | Inr nd \<Rightarrow>
                    (length md > 0,
                     e\<lparr>market_data := md, current_prices := cp, news_data := nd\<rparr>))))"

text \<open>The \<open>agent_results\<close> dict as \<open>run_all_agents\<close> builds it.\<close>

definition results_dict ::
  "risk_result \<Rightarrow> forecast_result \<Rightarrow> sentiment_result \<Rightarrow> correlation_result
     \<Rightarrow> advisory_result \<Rightarrow> (string \<times> agent_result) list" where
  "results_dict r f s c a =
     [(''risk'', RiskResult r), (''forecast'', ForecastResult f),
      (''sentiment'', SentimentResult s), (''correlation'', CorrelationResult c),
      (''advisory'', AdvisoryResult a)]"

text \<open>
  \<open>run_all_agents\<close>: the five calls in the order of the source, with no \<open>try\<close> block:
  the first exception leaves the method.
\<close>

definition run_all_agents ::
  "collaborators \<Rightarrow> engine \<Rightarrow> error + ((string \<times> agent_result) list \<times> engine)" where
  "run_all_agents c e =
     (case risk_agent_analyze c (market_data e) of
        Inl err \<Rightarrow> Inl err
      | Inr risk_result \<Rightarrow>
     (case forecast_agent_analyze c (market_data e) of
        Inl err \<Rightarrow> Inl err
      | Inr forecast_result \<Rightarrow>
     (case sentiment_agent_analyze c (news_data e) of
        Inl err \<Rightarrow> Inl err
      | Inr sentiment_result \<Rightarrow>
     (case correlation_agent_analyze c (market_data e) of
        Inl err \<Rightarrow> Inl err
      | Inr correlation_result \<Rightarrow>
     (case advisory_agent_analyze c risk_result forecast_result sentiment_result
             correlation_result of
        Inl err \<Rightarrow> Inl err
      | Inr advisory_result \<Rightarrow>
          let results =
                results_dict risk_result forecast_result sentiment_result correlation_result
                  advisory_result
          in Inr (results, e\<lparr>agent_results := results\<rparr>))))))"

definition dict_item :: "(string \<times> 'v) list \<Rightarrow> string \<Rightarrow> error + 'v" where
  "dict_item d k = (case map_of d k of None \<Rightarrow> Inl (KeyError k) | Some v \<Rightarrow> Inr v)"

definition forecast_score_of :: "string \<Rightarrow> real" where
  "forecast_score_of forecast_sentiment =
     (if forecast_sentiment = ''BEARISH'' then 70
      else if forecast_sentiment = ''BULLISH'' then 30
      else 50)"

definition sentiment_score_of :: "string \<Rightarrow> real \<Rightarrow> real" where
  "sentiment_score_of sentiment_label sentiment_score_raw =
     (if sentiment_label = ''NEGATIVE'' then 50 + \<bar>sentiment_score_raw\<bar> * 50
      else if sentiment_label = ''POSITIVE'' then 50 - sentiment_score_raw * 50
      else 50)"

definition correlation_score_of :: "string \<Rightarrow> real" where
  "correlation_score_of corr_risk_level =
     (if corr_risk_level = ''HIGH'' then 75
      else if corr_risk_level = ''MEDIUM'' then 50
      else 25)"

text \<open>
  \<open>calculate_unified_risk_score\<close>: returns the score and the engine with
  \<open>unified_score\<close> updated; with no agent results it returns 0 and leaves the engine
  as it is; a missing agent key raises KeyError.
\<close>

definition calculate_unified_risk_score :: "engine \<Rightarrow> error + (real \<times> engine)" where
  "calculate_unified_risk_score e =
     (if agent_results e = [] then Inr (0, e)
      else
        case dict_item (agent_results e) ''risk'' of Inl err \<Rightarrow> Inl err | Inr risk \<Rightarrow>
        case dict_item (agent_results e) ''forecast'' of Inl err \<Rightarrow> Inl err | Inr fc \<Rightarrow>
        case dict_item (agent_results e) ''sentiment'' of Inl err \<Rightarrow> Inl err | Inr sent \<Rightarrow>
        case dict_item (agent_results e) ''correlation'' of Inl err \<Rightarrow> Inl err | Inr corr \<Rightarrow>
          let risk_score = get_overall_risk_score risk 0;
              forecast_score = forecast_score_of (get_market_sentiment fc ''NEUTRAL'');
              sentiment_score =
                sentiment_score_of (get_overall_label sent ''NEUTRAL'') (get_overall_score sent 0);
              correlation_score = correlation_score_of (get_risk_level corr ''UNKNOWN'');
              unified =
                risk_score * 0.40 + forecast_score * 0.20 + sentiment_score * 0.20
                + correlation_score * 0.20;
              clamped = min 100 (max 0 unified)
          in Inr (clamped, e\<lparr>unified_score := clamped\<rparr>))"

definition engine_get_risk_level :: "engine \<Rightarrow> string" where
  "engine_get_risk_level e =
     (if unified_score e < 20 then ''LOW''
      else if unified_score e < 50 then ''MEDIUM''
      else if unified_score e < 80 then ''HIGH''
      else ''CRITICAL'')"

text \<open>
  \<open>get_all_alerts\<close>. The inner loop stamps each alert dict in place and appends it;
  the dicts are the ones held by \<open>agent_results\<close>, so the stamped results are returned
  with the merged list. Each agent builds its alert dicts afresh, so no dict is shared
  between two lists. \<open>list.sort\<close> is stable, as \<open>sort_key\<close> is.
\<close>

fun stamp_alerts :: "string \<Rightarrow> alert list \<Rightarrow> alert list \<Rightarrow> alert list" where
  "stamp_alerts agent_name [] all_alerts = all_alerts"
| "stamp_alerts agent_name (alert # alerts) all_alerts =
     stamp_alerts agent_name alerts (all_alerts @ [alert\<lparr>source := Some agent_name\<rparr>])"

fun collect_alerts :: "(string \<times> agent_result) list \<Rightarrow> alert list \<Rightarrow> alert list" where
  "collect_alerts [] all_alerts = all_alerts"
| "collect_alerts ((agent_name, result) # rest) all_alerts =
     (if agent_name = ''advisory'' then collect_alerts rest all_alerts
      else collect_alerts rest (stamp_alerts agent_name (get_alerts result []) all_alerts))"

definition stamp_source :: "string \<Rightarrow> alert \<Rightarrow> alert" where
  "stamp_source agent_name alert = alert\<lparr>source := Some agent_name\<rparr>"

fun stamp_result :: "string \<Rightarrow> agent_result \<Rightarrow> agent_result" where
  "stamp_result agent_name (RiskResult r) =
     RiskResult (r\<lparr>risk_alerts := map (stamp_source agent_name) (risk_alerts r)\<rparr>)"
| "stamp_result agent_name (SentimentResult s) =
     SentimentResult (s\<lparr>sent_alerts := map (stamp_source agent_name) (sent_alerts s)\<rparr>)"
| "stamp_result agent_name (CorrelationResult c) =
     CorrelationResult (c\<lparr>corr_alerts := map (stamp_source agent_name) (corr_alerts c)\<rparr>)"
| "stamp_result agent_name r = r"

definition severity_order :: "(string \<times> nat) list" where
  "severity_order = [(''CRITICAL'', 0), (''HIGH'', 1), (''MEDIUM'', 2), (''LOW'', 3)]"

definition severity_key :: "alert \<Rightarrow> nat" where
  "severity_key x =
     (case map_of severity_order (case severity x of None \<Rightarrow> ''LOW'' | Some s \<Rightarrow> s) of
        None \<Rightarrow> 3
      | Some n \<Rightarrow> n)"

definition get_all_alerts :: "engine \<Rightarrow> alert list \<times> engine" where
  "get_all_alerts e =
     (if agent_results e = [] then ([], e)
      else
        (sort_key severity_key (collect_alerts (agent_results e) []),
         e\<lparr>agent_results :=
             map (\<lambda>(agent_name, result).
                    (agent_name,
                     if agent_name = ''advisory'' then result
                     else stamp_result agent_name result))
                 (agent_results e)\<rparr>))"

text \<open>
  \<open>get_summary\<close>. The summary holds the \<open>agent_results\<close> dict itself, whose alerts
  \<open>get_all_alerts\<close> stamps while the summary is built.
\<close>

record summary =
  sum_unified_risk_score :: real
  sum_risk_level :: string
  sum_symbols :: "string list"
  sum_current_prices :: "(string \<times> price_info) list"
  sum_agent_results :: "(string \<times> agent_result) list"
  all_alerts :: "alert list"
  portfolio_metrics :: "(string \<times> pyfloat) list"

definition get_summary :: "collaborators \<Rightarrow> engine \<Rightarrow> error + (summary \<times> engine)" where
  "get_summary c e =
     (let (alerts, e') = get_all_alerts e
      in case calculate_portfolio_metrics c (market_data e) of
           Inl err \<Rightarrow> Inl err
         | Inr metrics \<Rightarrow>
             Inr (\<lparr>sum_unified_risk_score = unified_score e,
                   sum_risk_level = engine_get_risk_level e,
                   sum_symbols = symbols e,
                   sum_current_prices = current_prices e,
                   sum_agent_results = agent_results e',
                   all_alerts = alerts,
                   portfolio_metrics = metrics\<rparr>, e'))"

text \<open>
  \<open>run\<close>: \<open>{}\<close> (here \<open>None\<close>) when fetching fails; otherwise the agents, the unified
  score and the summary, with no \<open>try\<close> block around any of them. The progress lines it
  prints are not modelled; the calls they make (\<open>get_risk_level\<close>, \<open>get_all_alerts\<close>)
  change nothing after \<open>get_summary\<close>.
\<close>

definition run :: "collaborators \<Rightarrow> engine \<Rightarrow> string \<Rightarrow> error + (summary option \<times> engine)" where
  "run c e period =
     (let (fetched, e1) = fetch_all_data c e period
      in if \<not> fetched then Inr (None, e1)
         else
           case run_all_agents c e1 of
             Inl err \<Rightarrow> Inl err
           | Inr (results, e2) \<Rightarrow>
               (case calculate_unified_risk_score e2 of
                  Inl err \<Rightarrow> Inl err
                | Inr (score, e3) \<Rightarrow>
                    (case get_summary c e3 of
                       Inl err \<Rightarrow> Inl err
                     | Inr (s, e4) \<Rightarrow> Inr (Some s, e4))))"

text \<open>The first exception among the four base agents, in the order of the calls.\<close>

definition first_base_agent_fault :: "collaborators \<Rightarrow> engine \<Rightarrow> error option" where
  "first_base_agent_fault c e =
     (case risk_agent_analyze c (market_data e) of
        Inl err \<Rightarrow> Some err
      | Inr r \<Rightarrow>
     (case forecast_agent_analyze c (market_data e) of
        Inl err \<Rightarrow> Some err
      | Inr f \<Rightarrow>
     (case sentiment_agent_analyze c (news_data e) of
        Inl err \<Rightarrow> Some err
      | Inr s \<Rightarrow>
     (case correlation_agent_analyze c (market_data e) of
        Inl err \<Rightarrow> Some err
      | Inr k \<Rightarrow> None))))"

section \<open>The formulas and tables of the specification\<close>

text \<open>The unified score as the specification writes it, to be compared with the code.\<close>

definition spec_forecast_derived_score :: "forecast_result \<Rightarrow> real" where
  "spec_forecast_derived_score f =
     (if market_sentiment f = ''BEARISH'' then 70
      else if market_sentiment f = ''BULLISH'' then 30 else 50)"

definition spec_sentiment_derived_score :: "sentiment_result \<Rightarrow> real" where
  "spec_sentiment_derived_score s =
     (if overall_label s = ''NEGATIVE'' then 50 + \<bar>overall_score s\<bar> * 50
      else if overall_label s = ''POSITIVE'' then 50 - overall_score s * 50 else 50)"

definition spec_correlation_derived_score :: "correlation_result \<Rightarrow> real" where
  "spec_correlation_derived_score c =
     (if correlation_risk_level c = ''HIGH'' then 75
      else if correlation_risk_level c = ''MEDIUM'' then 50 else 25)"

definition spec_clamp :: "real \<Rightarrow> real" where
  "spec_clamp x = (if x < 0 then 0 else if 100 < x then 100 else x)"

definition spec_unified_score ::
  "risk_result \<Rightarrow> forecast_result \<Rightarrow> sentiment_result \<Rightarrow> correlation_result \<Rightarrow> real" where
  "spec_unified_score r f s c =
     spec_clamp (overall_risk_score r * (40 / 100) + spec_forecast_derived_score f * (20 / 100)
       + spec_sentiment_derived_score s * (20 / 100)
       + spec_correlation_derived_score c * (20 / 100))"

text \<open>The decision table of the specification: ordered rows, the first match wins.\<close>

fun first_match :: "(('a \<Rightarrow> bool) \<times> 'b) list \<Rightarrow> 'b \<Rightarrow> 'a \<Rightarrow> 'b" where
  "first_match [] dflt x = dflt"
| "first_match ((guard, outcome) # later_rows) dflt x =
     (if guard x then outcome else first_match later_rows dflt x)"

definition spec_decision_table :: "((string \<times> string \<times> string \<Rightarrow> bool) \<times> string) list" where
  "spec_decision_table =
     [(\<lambda>(risk, fc, sent). risk = ''CRITICAL'', ''REDUCE_RISK_IMMEDIATELY''),
      (\<lambda>(risk, fc, sent). risk = ''HIGH'' \<and> (fc = ''BEARISH'' \<or> sent = ''NEGATIVE''),
         ''DEFENSIVE_STANCE''),
      (\<lambda>(risk, fc, sent). risk = ''HIGH'', ''MONITOR_CLOSELY''),
      (\<lambda>(risk, fc, sent). risk = ''MEDIUM'' \<and> fc = ''BEARISH'' \<and> sent = ''NEGATIVE'',
         ''CAUTIOUS_APPROACH''),
      (\<lambda>(risk, fc, sent). risk = ''LOW'' \<and> fc = ''BULLISH'' \<and> sent = ''POSITIVE'',
         ''FAVORABLE_CONDITIONS'')]"

text \<open>
  The order of the merged alerts as the specification writes it: the ranks CRITICAL,
  HIGH, MEDIUM, LOW, and every other severity after these four. An alert without a
  severity counts as LOW, as in the code.
\<close>

definition spec_severity_rank :: "alert \<Rightarrow> nat" where
  "spec_severity_rank x =
     (case severity x of
        None \<Rightarrow> 3
      | Some s \<Rightarrow>
          if s = ''CRITICAL'' then 0
          else if s = ''HIGH'' then 1
          else if s = ''MEDIUM'' then 2
          else if s = ''LOW'' then 3
          else 4)"

definition spec_sorted_by_severity :: "alert list \<Rightarrow> bool" where
  "spec_sorted_by_severity alerts = sorted (map spec_severity_rank alerts)"

section \<open>Example inputs\<close>

definition example_alert :: "string \<Rightarrow> string \<Rightarrow> alert" where
  "example_alert typ sev =
     \<lparr>symbol = Some ''AAPL'', alert_type = typ, severity = Some sev, message = [],
      alert_value = Fin 0, source = None\<rparr>"

definition example_advisory_result :: advisory_result where
  "example_advisory_result =
     \<lparr>overall_recommendation = ''MAINTAIN_CURRENT_STRATEGY'', priority_actions = [],
      recommendations = [], risk_factors = [], adv_confidence = NaN, summary = []\<rparr>"

definition example_engine :: engine where
  "example_engine =
     (ARIONEngine_init [''AAPL''])
       \<lparr>agent_results :=
        results_dict
          (RiskAgent_empty_result\<lparr>risk_alerts := [example_alert ''HIGH_VOLATILITY'' ''MEDIUM'']\<rparr>)
          ForecastAgent_empty_result
          (SentimentAgent_empty_result
             \<lparr>sent_alerts := [example_alert ''NEWS'' ''WEIRD'',
                              example_alert ''POSITIVE_SENTIMENT'' ''LOW'']\<rparr>)
          (CorrelationAgent_empty_result
             \<lparr>corr_alerts := [example_alert ''HIGH_PORTFOLIO_CORRELATION'' ''HIGH'',
                              example_alert ''OTHER'' ''CRITICAL'']\<rparr>)
          example_advisory_result\<rparr>"

text \<open>
  A price table of four days, as the data fetcher builds it from the closes 100, 110,
  99, 99: the first return is missing, so it has three return observations.
\<close>

definition example_short_frame :: dataframe where
  "example_short_frame =
     \<lparr>columns = [''Close'', ''Returns'', ''Drawdown''],
      rows = [(1, [''Close'' \<mapsto> 100]),
              (2, [''Close'' \<mapsto> 110, ''Returns'' \<mapsto> 0.1, ''Drawdown'' \<mapsto> 0]),
              (3, [''Close'' \<mapsto> 99, ''Returns'' \<mapsto> - 0.1, ''Drawdown'' \<mapsto> - 0.1]),
              (4, [''Close'' \<mapsto> 99, ''Returns'' \<mapsto> 0, ''Drawdown'' \<mapsto> - 0.1])]\<rparr>"

text \<open>
  News for three symbols and a scorer under which the per-symbol average scores are
  0.8 (from 0.9 and 0.7), 0.6, and -0.1 (from -0.3 and 0.1).
\<close>

definition example_article :: "string \<Rightarrow> article" where
  "example_article t = \<lparr>title = Some t, publisher = [], link = [], published = []\<rparr>"

definition example_polarity :: "string \<Rightarrow> real" where
  "example_polarity t =
     (if t = ''a1'' then 0.9 else if t = ''a2'' then 0.7
      else if t = ''m1'' then 0.6
      else if t = ''t1'' then - 0.3 else if t = ''t2'' then 0.1
      else 0)"

definition example_news :: "(string \<times> article list) list" where
  "example_news =
     [(''AAPL'', [example_article ''a1'', example_article ''a2'']),
      (''MSFT'', [example_article ''m1'']),
      (''TSLA'', [example_article ''t1'', example_article ''t2''])]"

text \<open>
  A price table of thirty days; a feature preparation that raises KeyError on a table
  without a Close column; a fit that raises on no training rows and otherwise predicts
  a return of 0.01 for every row.
\<close>

definition example_frame :: "string list \<Rightarrow> dataframe" where
  "example_frame cols =
     \<lparr>columns = cols, rows = map (\<lambda>d. (d, [''Close'' \<mapsto> 100, ''Volume'' \<mapsto> 1000])) [1..<31]\<rparr>"

definition example_features :: feature_table where
  "example_features =
     replicate 6 (\<lambda>c. if c = ''SMA_5'' then 103 else if c = ''SMA_20'' then 100 else 0.01)"

definition example_prepare :: "dataframe \<Rightarrow> error + feature_table" where
  "example_prepare df =
     (if ''Close'' \<in> set (columns df) then Inr example_features else Inl (KeyError ''Close''))"

definition example_fit :: fitter where
  "example_fit mt X y = (if X = [] then Inl (Raised ''ValueError'') else Inr (\<lambda>row. 0.01))"

text \<open>
  Collaborators for one symbol with a short price table: every agent returns its empty
  result, the advisory agent is the modelled one; and the same with a risk agent whose
  \<open>analyze\<close> raises.
\<close>

definition example_collaborators :: collaborators where
  "example_collaborators =
     \<lparr>fetch_stock_data = (\<lambda>syms period. Inr [(''AAPL'', example_short_frame)]),
      fetch_current_prices = (\<lambda>syms. Inr []),
      fetch_news = (\<lambda>syms. Inr []),
      calculate_portfolio_metrics = (\<lambda>data. Inr []),
      risk_agent_analyze = (\<lambda>data. Inr RiskAgent_empty_result),
      forecast_agent_analyze = (\<lambda>data. Inr ForecastAgent_empty_result),
      sentiment_agent_analyze = (\<lambda>news. Inr SentimentAgent_empty_result),
      correlation_agent_analyze = (\<lambda>data. Inr CorrelationAgent_empty_result),
      advisory_agent_analyze =
        (\<lambda>r f s k. map_sum id fst
           (AdvisoryAgent_analyze (\<lambda>spec x. []) \<lparr>adv_last_analysis = None\<rparr> r f s k))\<rparr>"

definition example_faulty_collaborators :: collaborators where
  "example_faulty_collaborators =
     example_collaborators\<lparr>risk_agent_analyze := (\<lambda>data. Inl (Raised ''ValueError''))\<rparr>"

section \<open>Two successive calls of \<open>analyze\<close>\<close>

text \<open>
  The outcomes of \<open>analyze\<close> called twice on the same agent with the same input: the
  second call runs on the agent as the first call left it (unchanged where the first
  call raised).
\<close>

definition RiskAgent_analyze_twice ::
  "formatter \<Rightarrow> risk_agent \<Rightarrow> (string \<times> dataframe) list
     \<Rightarrow> (error + risk_result) \<times> (error + risk_result)" where
  "RiskAgent_analyze_twice fmt self data =
     (case RiskAgent_analyze fmt self data of
        Inl err \<Rightarrow> (Inl err, map_sum id fst (RiskAgent_analyze fmt self data))
      | Inr (res, self') \<Rightarrow> (Inr res, map_sum id fst (RiskAgent_analyze fmt self' data)))"

definition ForecastAgent_analyze_twice ::
  "(dataframe \<Rightarrow> error + feature_table) \<Rightarrow> fitter \<Rightarrow> forecast_agent
     \<Rightarrow> (string \<times> dataframe) list \<Rightarrow> forecast_result \<times> forecast_result" where
  "ForecastAgent_analyze_twice prepare fit self data =
     (let (res, self') = ForecastAgent_analyze prepare fit self data
      in (res, fst (ForecastAgent_analyze prepare fit self' data)))"

definition SentimentAgent_analyze_twice ::
  "formatter \<Rightarrow> (string \<Rightarrow> real) \<Rightarrow> sentiment_agent \<Rightarrow> (string \<times> article list) list
     \<Rightarrow> sentiment_result \<times> sentiment_result" where
  "SentimentAgent_analyze_twice fmt polarity self news =
     (let (res, self') = SentimentAgent_analyze fmt polarity self news
      in (res, fst (SentimentAgent_analyze fmt polarity self' news)))"

definition CorrelationAgent_analyze_twice ::
  "formatter \<Rightarrow> correlation_agent \<Rightarrow> (string \<times> dataframe) list
     \<Rightarrow> correlation_result \<times> correlation_result" where
  "CorrelationAgent_analyze_twice fmt self data =
     (let (res, self') = CorrelationAgent_analyze fmt self data
      in (res, fst (CorrelationAgent_analyze fmt self' data)))"

section \<open>Unified risk score\<close>

lemma dict_item_results:
  "dict_item (results_dict r f s c a) ''risk'' = Inr (RiskResult r)"
  "dict_item (results_dict r f s c a) ''forecast'' = Inr (ForecastResult f)"
  "dict_item (results_dict r f s c a) ''sentiment'' = Inr (SentimentResult s)"
  "dict_item (results_dict r f s c a) ''correlation'' = Inr (CorrelationResult c)"
  by (simp_all add: dict_item_def results_dict_def)

lemma clamp_eq: "min 100 (max 0 (x::real)) = spec_clamp x"
  by (simp add: spec_clamp_def min_def max_def)

lemma unified_score_on_results:
  "calculate_unified_risk_score (e\<lparr>agent_results := results_dict r f s c a\<rparr>)
     = Inr (spec_unified_score r f s c,
            e\<lparr>agent_results := results_dict r f s c a,
              unified_score := spec_unified_score r f s c\<rparr>)"
proof -
  have ne: "results_dict r f s c a \<noteq> []"
    by (simp add: results_dict_def)
  have fs: "forecast_score_of (market_sentiment f) = spec_forecast_derived_score f"
    by (simp add: forecast_score_of_def spec_forecast_derived_score_def)
  have ss: "sentiment_score_of (overall_label s) (overall_score s)
              = spec_sentiment_derived_score s"
    by (simp add: sentiment_score_of_def spec_sentiment_derived_score_def)
  have cs: "correlation_score_of (correlation_risk_level c) = spec_correlation_derived_score c"
    by (simp add: correlation_score_of_def spec_correlation_derived_score_def)
  show ?thesis
    by (simp add: calculate_unified_risk_score_def ne dict_item_results fs ss cs clamp_eq
        spec_unified_score_def Let_def)
qed

text \<open>
  C1. For every four agent results, \<open>calculate_unified_risk_score\<close> returns, and stores
  in \<open>unified_score\<close>, the weighted sum 0.40 / 0.20 / 0.20 / 0.20 of the risk agent's
  overall score and the three derived scores, clamped to [0, 100]; the derived scores
  are 70 / 30 / 50 for a BEARISH / BULLISH / other forecast, \<open>50 + |raw| * 50\<close>,
  \<open>50 - raw * 50\<close> or 50 for a NEGATIVE / POSITIVE / other sentiment label, and
  75 / 50 / 25 for a HIGH / MEDIUM / other correlation risk level.
\<close>

theorem unified_risk_score_formula:
  "calculate_unified_risk_score (e\<lparr>agent_results := results_dict r f s c a\<rparr>)
     = Inr (spec_unified_score r f s c,
            e\<lparr>agent_results := results_dict r f s c a,
              unified_score := spec_unified_score r f s c\<rparr>)
   \<and> 0 \<le> spec_unified_score r f s c \<and> spec_unified_score r f s c \<le> 100"
proof -
  have rng: "0 \<le> spec_unified_score r f s c \<and> spec_unified_score r f s c \<le> 100"
    by (simp add: spec_unified_score_def spec_clamp_def)
  from unified_score_on_results rng show ?thesis by simp
qed

section \<open>Alert merge\<close>

lemma stamp_alerts_eq:
  "stamp_alerts agent_name alerts acc = acc @ map (stamp_source agent_name) alerts"
  by (induction alerts arbitrary: acc) (simp_all add: stamp_source_def)

lemma collect_alerts_eq:
  "collect_alerts results acc =
     acc @ concat (map (\<lambda>(agent_name, result). map (stamp_source agent_name) (get_alerts result []))
                       (filter (\<lambda>(agent_name, result). agent_name \<noteq> ''advisory'') results))"
  by (induction results arbitrary: acc) (auto simp: stamp_alerts_eq)

lemma severity_key_known:
  "severity_key (x\<lparr>severity := Some ''CRITICAL''\<rparr>) = 0"
  "severity_key (x\<lparr>severity := Some ''HIGH''\<rparr>) = 1"
  "severity_key (x\<lparr>severity := Some ''MEDIUM''\<rparr>) = 2"
  "severity_key (x\<lparr>severity := Some ''LOW''\<rparr>) = 3"
  "severity_key (x\<lparr>severity := None\<rparr>) = 3"
  by (simp_all add: severity_key_def severity_order_def)

lemma severity_key_unknown:
  "sev \<notin> {''CRITICAL'', ''HIGH'', ''MEDIUM'', ''LOW''}
     \<Longrightarrow> severity_key (x\<lparr>severity := Some sev\<rparr>) = 3"
  by (simp add: severity_key_def severity_order_def)

lemma severity_key_le: "severity_key x \<le> 3"
  by (auto simp: severity_key_def severity_order_def split: option.splits if_splits)

lemma severity_key_last_rank:
  "(severity_key x = 3) = (severity x \<notin> {Some ''CRITICAL'', Some ''HIGH'', Some ''MEDIUM''})"
  by (auto simp: severity_key_def severity_order_def split: option.splits if_splits)

text \<open>
  C2 (amended). On the dict that \<open>run_all_agents\<close> builds, \<open>get_all_alerts\<close> returns the
  alerts of the risk, sentiment and correlation results (the forecast result has no alert
  list and the advisory result is skipped), each with \<open>source\<close> set to the name of its
  agent and otherwise unchanged, as many as the three lists hold together, in the stable
  order of the severity ranks CRITICAL 0, HIGH 1, MEDIUM 2, LOW 3. A missing or unknown
  severity has the rank of LOW, 3: the alerts of rank 3 are those whose severity is not
  CRITICAL, HIGH or MEDIUM; they stand after every CRITICAL, HIGH and MEDIUM alert, and
  among themselves, LOW or not, in the order of the concatenation.
\<close>

theorem all_alerts_merge:
  "fst (get_all_alerts (e\<lparr>agent_results := results_dict r f s c a\<rparr>))
     = sort_key severity_key
         (map (stamp_source ''risk'') (risk_alerts r)
          @ map (stamp_source ''sentiment'') (sent_alerts s)
          @ map (stamp_source ''correlation'') (corr_alerts c))
   \<and> mset (fst (get_all_alerts (e\<lparr>agent_results := results_dict r f s c a\<rparr>)))
     = mset (map (stamp_source ''risk'') (risk_alerts r))
       + mset (map (stamp_source ''sentiment'') (sent_alerts s))
       + mset (map (stamp_source ''correlation'') (corr_alerts c))
   \<and> length (fst (get_all_alerts (e\<lparr>agent_results := results_dict r f s c a\<rparr>)))
     = length (risk_alerts r) + length (sent_alerts s) + length (corr_alerts c)
   \<and> sorted (map severity_key (fst (get_all_alerts (e\<lparr>agent_results := results_dict r f s c a\<rparr>))))
   \<and> filter (\<lambda>y. severity_key y = k)
        (fst (get_all_alerts (e\<lparr>agent_results := results_dict r f s c a\<rparr>)))
     = filter (\<lambda>y. severity_key y = k)
         (map (stamp_source ''risk'') (risk_alerts r)
          @ map (stamp_source ''sentiment'') (sent_alerts s)
          @ map (stamp_source ''correlation'') (corr_alerts c))
   \<and> stamp_source agent_name x = x\<lparr>source := Some agent_name\<rparr>
   \<and> severity_key (x\<lparr>severity := Some ''CRITICAL''\<rparr>) = 0
   \<and> severity_key (x\<lparr>severity := Some ''HIGH''\<rparr>) = 1
   \<and> severity_key (x\<lparr>severity := Some ''MEDIUM''\<rparr>) = 2
   \<and> severity_key (x\<lparr>severity := Some ''LOW''\<rparr>) = 3
   \<and> (sev \<notin> {''CRITICAL'', ''HIGH'', ''MEDIUM'', ''LOW''}
        \<longrightarrow> severity_key (x\<lparr>severity := Some sev\<rparr>) = 3)
   \<and> severity_key x \<le> 3
   \<and> (severity_key x = 3) = (severity x \<notin> {Some ''CRITICAL'', Some ''HIGH'', Some ''MEDIUM''})"
proof -
  let ?stamped = "map (stamp_source ''risk'') (risk_alerts r)
          @ map (stamp_source ''sentiment'') (sent_alerts s)
          @ map (stamp_source ''correlation'') (corr_alerts c)"
  have merged: "fst (get_all_alerts (e\<lparr>agent_results := results_dict r f s c a\<rparr>))
                  = sort_key severity_key ?stamped"
    by (simp add: get_all_alerts_def collect_alerts_eq results_dict_def)
  have m: "mset (sort_key severity_key ?stamped)
             = mset (map (stamp_source ''risk'') (risk_alerts r))
               + mset (map (stamp_source ''sentiment'') (sent_alerts s))
               + mset (map (stamp_source ''correlation'') (corr_alerts c))"
    by simp
  have l: "length (sort_key severity_key ?stamped)
             = length (risk_alerts r) + length (sent_alerts s) + length (corr_alerts c)"
    by simp
  have srt: "sorted (map severity_key (sort_key severity_key ?stamped))"
    by (rule sorted_sort_key)
  have stable: "filter (\<lambda>y. severity_key y = k) (sort_key severity_key ?stamped)
                  = filter (\<lambda>y. severity_key y = k) ?stamped"
    by (rule sort_key_stable)
  have unk: "sev \<notin> {''CRITICAL'', ''HIGH'', ''MEDIUM'', ''LOW''}
        \<longrightarrow> severity_key (x\<lparr>severity := Some sev\<rparr>) = 3"
    using severity_key_unknown by blast
  show ?thesis
    unfolding merged
    by (intro conjI refl m l srt stable unk severity_key_known severity_key_le
        severity_key_last_rank)
       (simp add: stamp_source_def)
qed

theorem all_alerts_merge_witness:
  "''WEIRD'' \<notin> {''CRITICAL'', ''HIGH'', ''MEDIUM'', ''LOW''}
   \<and> severity_key (example_alert ''NEWS'' ''WEIRD'') = 3
   \<and> map severity (fst (get_all_alerts example_engine))
     = [Some ''CRITICAL'', Some ''HIGH'', Some ''MEDIUM'', Some ''WEIRD'', Some ''LOW'']
   \<and> map source (fst (get_all_alerts example_engine))
     = [Some ''correlation'', Some ''correlation'', Some ''risk'', Some ''sentiment'',
        Some ''sentiment'']
   \<and> map alert_type (fst (get_all_alerts example_engine))
     = [''OTHER'', ''HIGH_PORTFOLIO_CORRELATION'', ''HIGH_VOLATILITY'', ''NEWS'',
        ''POSITIVE_SENTIMENT'']"
proof -
  have unknown: "''WEIRD'' \<notin> {''CRITICAL'', ''HIGH'', ''MEDIUM'', ''LOW''}"
    by simp
  note t = all_alerts_merge
    [where e = "ARIONEngine_init [''AAPL'']"
       and r = "RiskAgent_empty_result\<lparr>risk_alerts := [example_alert ''HIGH_VOLATILITY'' ''MEDIUM'']\<rparr>"
       and f = ForecastAgent_empty_result
       and s = "SentimentAgent_empty_result
             \<lparr>sent_alerts := [example_alert ''NEWS'' ''WEIRD'',
                              example_alert ''POSITIVE_SENTIMENT'' ''LOW'']\<rparr>"
       and c = "CorrelationAgent_empty_result
             \<lparr>corr_alerts := [example_alert ''HIGH_PORTFOLIO_CORRELATION'' ''HIGH'',
                              example_alert ''OTHER'' ''CRITICAL'']\<rparr>"
       and a = example_advisory_result
       and x = "example_alert ''NEWS'' ''WEIRD''" and sev = "''WEIRD''"
       and agent_name = "''risk''" and k = 3]
  have eng: "(ARIONEngine_init [''AAPL''])
               \<lparr>agent_results := results_dict
          (RiskAgent_empty_result\<lparr>risk_alerts := [example_alert ''HIGH_VOLATILITY'' ''MEDIUM'']\<rparr>)
          ForecastAgent_empty_result
          (SentimentAgent_empty_result
             \<lparr>sent_alerts := [example_alert ''NEWS'' ''WEIRD'',
                              example_alert ''POSITIVE_SENTIMENT'' ''LOW'']\<rparr>)
          (CorrelationAgent_empty_result
             \<lparr>corr_alerts := [example_alert ''HIGH_PORTFOLIO_CORRELATION'' ''HIGH'',
                              example_alert ''OTHER'' ''CRITICAL'']\<rparr>)
          example_advisory_result\<rparr> = example_engine"
    by (simp add: example_engine_def)
  have key: "severity_key (example_alert ''NEWS'' ''WEIRD'') = 3"
    using t unknown by (simp add: example_alert_def)
  have merged: "fst (get_all_alerts example_engine)
     = sort_key severity_key
         (map (stamp_source ''risk'') [example_alert ''HIGH_VOLATILITY'' ''MEDIUM'']
          @ map (stamp_source ''sentiment'')
              [example_alert ''NEWS'' ''WEIRD'', example_alert ''POSITIVE_SENTIMENT'' ''LOW'']
          @ map (stamp_source ''correlation'')
              [example_alert ''HIGH_PORTFOLIO_CORRELATION'' ''HIGH'',
               example_alert ''OTHER'' ''CRITICAL''])"
    using t unfolding eng by simp
  show ?thesis
    unfolding merged
    using unknown key
    by (simp add: stamp_source_def example_alert_def severity_key_def severity_order_def)
qed

lemma example_engine_alerts:
  "fst (get_all_alerts example_engine)
     = [stamp_source ''correlation'' (example_alert ''OTHER'' ''CRITICAL''),
        stamp_source ''correlation'' (example_alert ''HIGH_PORTFOLIO_CORRELATION'' ''HIGH''),
        stamp_source ''risk'' (example_alert ''HIGH_VOLATILITY'' ''MEDIUM''),
        stamp_source ''sentiment'' (example_alert ''NEWS'' ''WEIRD''),
        stamp_source ''sentiment'' (example_alert ''POSITIVE_SENTIMENT'' ''LOW'')]"
proof -
  have merged: "fst (get_all_alerts example_engine)
     = sort_key severity_key
         (map (stamp_source ''risk'') [example_alert ''HIGH_VOLATILITY'' ''MEDIUM'']
          @ map (stamp_source ''sentiment'')
              [example_alert ''NEWS'' ''WEIRD'', example_alert ''POSITIVE_SENTIMENT'' ''LOW'']
          @ map (stamp_source ''correlation'')
              [example_alert ''HIGH_PORTFOLIO_CORRELATION'' ''HIGH'',
               example_alert ''OTHER'' ''CRITICAL''])"
    unfolding example_engine_def
    by (simp add: get_all_alerts_def collect_alerts_eq results_dict_def)
  show ?thesis
    unfolding merged
    by (simp add: stamp_source_def example_alert_def severity_key_def severity_order_def)
qed

text \<open>
  C2 as stated fails on that input: the sentiment agent's alert of the unknown severity
  WEIRD stands before its LOW alert, so the merged list is not in the order of the
  specification, in which an unknown severity comes after LOW.
\<close>

theorem all_alerts_unknown_not_last_counterexample:
  "map severity (fst (get_all_alerts example_engine))
     = [Some ''CRITICAL'', Some ''HIGH'', Some ''MEDIUM'', Some ''WEIRD'', Some ''LOW'']
   \<and> map spec_severity_rank (fst (get_all_alerts example_engine)) = [0, 1, 2, 4, 3]
   \<and> \<not> spec_sorted_by_severity (fst (get_all_alerts example_engine))"
  unfolding example_engine_alerts
  by (simp add: spec_sorted_by_severity_def spec_severity_rank_def stamp_source_def
      example_alert_def)

section \<open>Risk level thresholds\<close>

text \<open>
  C3. The engine's \<open>get_risk_level\<close> is the step function of the unified score with
  thresholds 20, 50 and 80: LOW below 20, MEDIUM from 20 up to 50, HIGH from 50 up to
  80, CRITICAL from 80 on; the scores 20, 50 and 80 themselves give MEDIUM, HIGH and
  CRITICAL; the risk agent's \<open>_get_risk_level\<close> is the same function.
\<close>

theorem risk_level_step_function:
  "(s < 20 \<longrightarrow> engine_get_risk_level (e\<lparr>unified_score := s\<rparr>) = ''LOW'')
   \<and> (20 \<le> s \<and> s < 50 \<longrightarrow> engine_get_risk_level (e\<lparr>unified_score := s\<rparr>) = ''MEDIUM'')
   \<and> (50 \<le> s \<and> s < 80 \<longrightarrow> engine_get_risk_level (e\<lparr>unified_score := s\<rparr>) = ''HIGH'')
   \<and> (80 \<le> s \<longrightarrow> engine_get_risk_level (e\<lparr>unified_score := s\<rparr>) = ''CRITICAL'')
   \<and> engine_get_risk_level (e\<lparr>unified_score := 20\<rparr>) = ''MEDIUM''
   \<and> engine_get_risk_level (e\<lparr>unified_score := 50\<rparr>) = ''HIGH''
   \<and> engine_get_risk_level (e\<lparr>unified_score := 80\<rparr>) = ''CRITICAL''
   \<and> RiskAgent_get_risk_level s = engine_get_risk_level (e\<lparr>unified_score := s\<rparr>)"
  by (simp add: engine_get_risk_level_def RiskAgent_get_risk_level_def)

theorem risk_level_step_function_witness:
  "(10::real) < 20
   \<and> engine_get_risk_level ((ARIONEngine_init [''AAPL''])\<lparr>unified_score := 10\<rparr>) = ''LOW''
   \<and> (20::real) \<le> 35 \<and> (35::real) < 50
   \<and> engine_get_risk_level ((ARIONEngine_init [''AAPL''])\<lparr>unified_score := 35\<rparr>) = ''MEDIUM''
   \<and> (50::real) \<le> 65 \<and> (65::real) < 80
   \<and> engine_get_risk_level ((ARIONEngine_init [''AAPL''])\<lparr>unified_score := 65\<rparr>) = ''HIGH''
   \<and> (80::real) \<le> 95
   \<and> engine_get_risk_level ((ARIONEngine_init [''AAPL''])\<lparr>unified_score := 95\<rparr>) = ''CRITICAL''
   \<and> RiskAgent_get_risk_level 95 = ''CRITICAL''"
  using risk_level_step_function [of 10 "ARIONEngine_init [''AAPL'']"]
        risk_level_step_function [of 35 "ARIONEngine_init [''AAPL'']"]
        risk_level_step_function [of 65 "ARIONEngine_init [''AAPL'']"]
        risk_level_step_function [of 95 "ARIONEngine_init [''AAPL'']"]
  by simp

section \<open>Risk agent on insufficient data\<close>

lemma risk_loop_all_skipped:
  "list_all (\<lambda>(symb, df). length (tail 20 (dropna (column df ''Returns''))) < 5) data
     \<Longrightarrow> risk_loop fmt self data acc = Inr acc"
  by (induction data arbitrary: acc) (auto simp: risk_symbol_def Let_def)

text \<open>
  With no data at all \<open>analyze\<close> returns the empty result, level UNKNOWN. With data of
  which every table has fewer than five return observations it skips every symbol and
  then goes on: the score is 0 and the level is that of the score 0, which is LOW.
\<close>

lemma RiskAgent_analyze_no_data:
  "RiskAgent_analyze fmt self [] = Inr (RiskAgent_empty_result, self)"
  by (simp add: RiskAgent_analyze_def)

lemma RiskAgent_analyze_all_skipped:
  assumes "data \<noteq> []"
    and "list_all (\<lambda>(symb, df). length (tail 20 (dropna (column df ''Returns''))) < 5) data"
  shows "\<exists>res. RiskAgent_analyze fmt self data = Inr (res, self\<lparr>risk_last_analysis := Some res\<rparr>)
           \<and> overall_risk_score res = 0 \<and> risk_level res = ''LOW''
           \<and> risk_individual_scores res = []"
  using assms
  by (simp add: RiskAgent_analyze_def risk_loop_all_skipped Let_def RiskAgent_get_risk_level_def)

text \<open>
  C4 (the code diverges). One symbol with three return observations: the symbol is
  skipped, no score is produced, and the result is not the empty result: its level is
  LOW, not UNKNOWN.
\<close>

theorem risk_agent_three_returns_is_low:
  "\<exists>res. RiskAgent_analyze fmt RiskAgent_init [(''AAPL'', example_short_frame)]
            = Inr (res, RiskAgent_init\<lparr>risk_last_analysis := Some res\<rparr>)
         \<and> dropna (column example_short_frame ''Returns'') = [0.1, - 0.1, 0]
         \<and> risk_individual_scores res = []
         \<and> overall_risk_score res = 0
         \<and> risk_confidence res = 0
         \<and> risk_level res = ''LOW''
         \<and> risk_level res \<noteq> ''UNKNOWN''
         \<and> res \<noteq> RiskAgent_empty_result"
proof -
  have obs: "dropna (column example_short_frame ''Returns'') = [0.1, - 0.1, 0]"
    by (simp add: dropna_def column_def example_short_frame_def)
  have skipped:
    "list_all (\<lambda>(symb, df). length (tail 20 (dropna (column df ''Returns''))) < 5)
       [(''AAPL'', example_short_frame)]"
    by (simp add: obs tail_def)
  obtain res where run:
    "RiskAgent_analyze fmt RiskAgent_init [(''AAPL'', example_short_frame)]
       = Inr (res, RiskAgent_init\<lparr>risk_last_analysis := Some res\<rparr>)"
    and res: "overall_risk_score res = 0" "risk_level res = ''LOW''"
      "risk_individual_scores res = []"
    using RiskAgent_analyze_all_skipped [OF _ skipped] by blast
  have conf0: "RiskAgent_calculate_confidence [(''AAPL'', example_short_frame)] = 0"
    by (simp add: RiskAgent_calculate_confidence_def df_len_def example_short_frame_def)
  have conf: "risk_confidence res = 0"
    using run
    unfolding RiskAgent_analyze_def risk_loop_all_skipped [OF skipped] Let_def conf0
    by auto
  have ne: "res \<noteq> RiskAgent_empty_result"
    using res(2) by (auto simp: RiskAgent_empty_result_def)
  from run obs res conf ne show ?thesis by auto
qed

section \<open>Sentiment scenario\<close>

lemma sentiment_loop_three:
  assumes "s1 \<noteq> s2" "s1 \<noteq> s3" "s2 \<noteq> s3"
    and "title_scores polarity a1 \<noteq> []" "title_scores polarity a2 \<noteq> []"
        "title_scores polarity a3 \<noteq> []"
  shows "acc_sentiment_scores
           (sentiment_loop polarity [(s1, a1), (s2, a2), (s3, a3)]
              \<lparr>acc_sentiment_scores = [], acc_sentiment_labels = [], acc_article_counts = []\<rparr>)
         = [(s1, mean (title_scores polarity a1)), (s2, mean (title_scores polarity a2)),
            (s3, mean (title_scores polarity a3))]"
proof -
  have ne: "a1 \<noteq> []" "a2 \<noteq> []" "a3 \<noteq> []"
    using assms(4-6) by auto
  show ?thesis
    using assms(1-3) assms(4-6) ne
    by (simp add: sentiment_symbol_def Let_def)
qed

text \<open>
  C5 (amended). For news of three symbols whose per-symbol average scores are 0.8, 0.6
  and -0.1, \<open>analyze\<close> returns the overall score 13/30 (about 0.43) and the label
  POSITIVE, and its alerts are a POSITIVE_SENTIMENT alert of severity LOW for the first
  symbol and one for the second (0.8 and 0.6 both exceed 0.5), and none for the third.
\<close>

theorem sentiment_scenario_alerts:
  assumes "s1 \<noteq> s2" "s1 \<noteq> s3" "s2 \<noteq> s3"
    and "title_scores polarity a1 \<noteq> []" "mean (title_scores polarity a1) = 0.8"
    and "title_scores polarity a2 \<noteq> []" "mean (title_scores polarity a2) = 0.6"
    and "title_scores polarity a3 \<noteq> []" "mean (title_scores polarity a3) = - 0.1"
  shows "overall_score (fst (SentimentAgent_analyze fmt polarity self [(s1, a1), (s2, a2), (s3, a3)]))
           = 13 / 30
         \<and> overall_label (fst (SentimentAgent_analyze fmt polarity self [(s1, a1), (s2, a2), (s3, a3)]))
           = ''POSITIVE''
         \<and> map (\<lambda>a. (symbol a, alert_type a, severity a))
             (sent_alerts (fst (SentimentAgent_analyze fmt polarity self [(s1, a1), (s2, a2), (s3, a3)])))
           = [(Some s1, ''POSITIVE_SENTIMENT'', Some ''LOW''),
              (Some s2, ''POSITIVE_SENTIMENT'', Some ''LOW'')]"
proof -
  have scores: "acc_sentiment_scores
           (sentiment_loop polarity [(s1, a1), (s2, a2), (s3, a3)]
              \<lparr>acc_sentiment_scores = [], acc_sentiment_labels = [], acc_article_counts = []\<rparr>)
         = [(s1, 0.8), (s2, 0.6), (s3, - 0.1)]"
    using sentiment_loop_three [OF assms(1-3) assms(4) assms(6) assms(8)]
    by (simp add: assms(5) assms(7) assms(9))
  show ?thesis
    unfolding SentimentAgent_analyze_def Let_def scores
    by (simp add: mean_def SentimentAgent_get_sentiment_label_def)
qed

lemma example_title_scores:
  "title_scores example_polarity [example_article ''a1'', example_article ''a2''] = [0.9, 0.7]"
  "title_scores example_polarity [example_article ''m1''] = [0.6]"
  "title_scores example_polarity [example_article ''t1'', example_article ''t2''] = [- 0.3, 0.1]"
  by (simp_all add: example_polarity_def example_article_def)

theorem sentiment_scenario_alerts_witness:
  "''AAPL'' \<noteq> ''MSFT'' \<and> ''AAPL'' \<noteq> ''TSLA'' \<and> ''MSFT'' \<noteq> ''TSLA''
   \<and> mean (title_scores example_polarity [example_article ''a1'', example_article ''a2'']) = 0.8
   \<and> mean (title_scores example_polarity [example_article ''m1'']) = 0.6
   \<and> mean (title_scores example_polarity [example_article ''t1'', example_article ''t2'']) = - 0.1
   \<and> overall_score
        (fst (SentimentAgent_analyze (\<lambda>spec x. []) example_polarity \<lparr>sent_last_analysis = None\<rparr>
                example_news)) = 13 / 30
   \<and> overall_label
        (fst (SentimentAgent_analyze (\<lambda>spec x. []) example_polarity \<lparr>sent_last_analysis = None\<rparr>
                example_news)) = ''POSITIVE''
   \<and> map (\<lambda>a. (symbol a, alert_type a, severity a))
        (sent_alerts
           (fst (SentimentAgent_analyze (\<lambda>spec x. []) example_polarity
                   \<lparr>sent_last_analysis = None\<rparr> example_news)))
      = [(Some ''AAPL'', ''POSITIVE_SENTIMENT'', Some ''LOW''),
         (Some ''MSFT'', ''POSITIVE_SENTIMENT'', Some ''LOW'')]"
proof -
  have d: "''AAPL'' \<noteq> ''MSFT''" "''AAPL'' \<noteq> ''TSLA''" "''MSFT'' \<noteq> ''TSLA''"
    by simp_all
  have m: "mean (title_scores example_polarity [example_article ''a1'', example_article ''a2'']) = 0.8"
    "mean (title_scores example_polarity [example_article ''m1'']) = 0.6"
    "mean (title_scores example_polarity [example_article ''t1'', example_article ''t2'']) = - 0.1"
    unfolding example_title_scores by (simp_all add: mean_def)
  have n: "title_scores example_polarity [example_article ''a1'', example_article ''a2''] \<noteq> []"
    "title_scores example_polarity [example_article ''m1''] \<noteq> []"
    "title_scores example_polarity [example_article ''t1'', example_article ''t2''] \<noteq> []"
    unfolding example_title_scores by simp_all
  note t = sentiment_scenario_alerts
    [OF d n(1) m(1) n(2) m(2) n(3) m(3),
     of "\<lambda>spec x. []" "\<lparr>sent_last_analysis = None\<rparr>", folded example_news_def]
  from d m t show ?thesis by (intro conjI) (elim conjE, assumption)+
qed

text \<open>
  C5 as stated fails on that input: the second symbol, with the average score 0.6, has
  a POSITIVE_SENTIMENT alert too.
\<close>

theorem sentiment_scenario_counterexample:
  "sent_individual_scores
     (fst (SentimentAgent_analyze (\<lambda>spec x. []) example_polarity \<lparr>sent_last_analysis = None\<rparr>
             example_news))
     = [(''AAPL'', 0.8), (''MSFT'', 0.6), (''TSLA'', - 0.1)]
   \<and> \<not> (\<forall>a \<in> set (sent_alerts
                     (fst (SentimentAgent_analyze (\<lambda>spec x. []) example_polarity
                             \<lparr>sent_last_analysis = None\<rparr> example_news))).
           alert_type a = ''POSITIVE_SENTIMENT'' \<longrightarrow> symbol a = Some ''AAPL'')"
proof -
  have scores: "acc_sentiment_scores
           (sentiment_loop example_polarity example_news
              \<lparr>acc_sentiment_scores = [], acc_sentiment_labels = [], acc_article_counts = []\<rparr>)
         = [(''AAPL'', 0.8), (''MSFT'', 0.6), (''TSLA'', - 0.1)]"
  proof -
    have "acc_sentiment_scores
           (sentiment_loop example_polarity example_news
              \<lparr>acc_sentiment_scores = [], acc_sentiment_labels = [], acc_article_counts = []\<rparr>)
         = [(''AAPL'', mean (title_scores example_polarity
                               [example_article ''a1'', example_article ''a2''])),
            (''MSFT'', mean (title_scores example_polarity [example_article ''m1''])),
            (''TSLA'', mean (title_scores example_polarity
                               [example_article ''t1'', example_article ''t2'']))]"
      unfolding example_news_def
      by (rule sentiment_loop_three) (simp_all only: example_title_scores, simp_all)
    then show ?thesis
      unfolding example_title_scores by (simp add: mean_def)
  qed
  have ne: "example_news \<noteq> []"
    by (simp add: example_news_def)
  show ?thesis
    unfolding SentimentAgent_analyze_def Let_def scores
    by (simp add: ne)
qed

section \<open>Advisory agent\<close>

lemma priority_keys_total:
  "list_all (\<lambda>x. priority x \<in> fst ` set priority_order) xs \<Longrightarrow> \<exists>ks. priority_keys xs = Inr ks"
proof (induction xs)
  case Nil
  then show ?case by simp
next
  case (Cons x xs)
  then obtain ks where ks: "priority_keys xs = Inr ks" by auto
  from Cons.prems have "priority x \<in> fst ` set priority_order" by simp
  then obtain k where "map_of priority_order (priority x) = Some k"
    by (metis domD dom_map_of_conv_image_fst)
  with ks show ?case by simp
qed

lemma advisory_priorities_known:
  "list_all (\<lambda>x. priority x \<in> fst ` set priority_order)
     (advisory_priority_actions fmt r f s c)"
  by (simp add: advisory_priority_actions_def priority_order_def Let_def)

lemma AdvisoryAgent_analyze_confidence:
  assumes "AdvisoryAgent_analyze fmt self r f s c = Inr (res, self')"
  shows "adv_confidence res =
           np_mean (filter (\<lambda>x. x > 0)
             [risk_confidence r, forecast_confidence f, sent_confidence s, corr_confidence c])"
    and "overall_recommendation res =
           generate_overall_recommendation (risk_level r) (market_sentiment f) (overall_label s)
             (correlation_risk_level c)"
    and "self' = self\<lparr>adv_last_analysis := Some res\<rparr>"
  using assms
  unfolding AdvisoryAgent_analyze_def Let_def advisory_confidence_def
  by (auto split: sum.splits)

text \<open>The priorities that \<open>analyze\<close> writes are keys of the order dict: the sort never raises.\<close>

lemma AdvisoryAgent_analyze_total:
  "\<exists>res. AdvisoryAgent_analyze fmt self r f s c = Inr (res, self\<lparr>adv_last_analysis := Some res\<rparr>)"
proof -
  obtain ks where "priority_keys (advisory_priority_actions fmt r f s c) = Inr ks"
    using priority_keys_total [OF advisory_priorities_known] by blast
  then show ?thesis
    by (simp add: AdvisoryAgent_analyze_def sorted_by_priority_def Let_def)
qed

text \<open>
  C6 (the code diverges). With the four confidences all zero (the four empty results),
  the list of positive confidences is empty and \<open>np.mean\<close> of it is \<open>nan\<close>: the advisory
  confidence is \<open>nan\<close>, not 0.
\<close>

theorem advisory_confidence_all_zero_is_nan:
  "\<exists>res self'.
     AdvisoryAgent_analyze fmt self RiskAgent_empty_result ForecastAgent_empty_result
       SentimentAgent_empty_result CorrelationAgent_empty_result = Inr (res, self')
     \<and> adv_confidence res = NaN \<and> adv_confidence res \<noteq> Fin 0"
proof -
  obtain res where run:
    "AdvisoryAgent_analyze fmt self RiskAgent_empty_result ForecastAgent_empty_result
       SentimentAgent_empty_result CorrelationAgent_empty_result
     = Inr (res, self\<lparr>adv_last_analysis := Some res\<rparr>)"
    using AdvisoryAgent_analyze_total by blast
  have "adv_confidence res = NaN"
    using AdvisoryAgent_analyze_confidence(1) [OF run]
    by (simp add: np_mean_def RiskAgent_empty_result_def ForecastAgent_empty_result_def
        SentimentAgent_empty_result_def CorrelationAgent_empty_result_def)
  with run show ?thesis by auto
qed

text \<open>
  Where at least one confidence is positive and none is negative, the advisory confidence
  is the mean of the non-zero confidences.
\<close>

lemma advisory_confidence_mean_of_nonzero:
  assumes run: "AdvisoryAgent_analyze fmt self r f s c = Inr (res, self')"
    and nonneg: "0 \<le> risk_confidence r" "0 \<le> forecast_confidence f"
                "0 \<le> sent_confidence s" "0 \<le> corr_confidence c"
    and some: "risk_confidence r \<noteq> 0 \<or> forecast_confidence f \<noteq> 0
               \<or> sent_confidence s \<noteq> 0 \<or> corr_confidence c \<noteq> 0"
  shows "adv_confidence res =
           (let nz = filter (\<lambda>x. x \<noteq> 0)
                  [risk_confidence r, forecast_confidence f, sent_confidence s, corr_confidence c]
            in Fin (sum_list nz / real (length nz)))"
proof -
  have eq: "filter (\<lambda>x. x > 0)
              [risk_confidence r, forecast_confidence f, sent_confidence s, corr_confidence c]
            = filter (\<lambda>x. x \<noteq> 0)
              [risk_confidence r, forecast_confidence f, sent_confidence s, corr_confidence c]"
    using nonneg by (intro filter_cong) auto
  have ne: "filter (\<lambda>x. x \<noteq> 0)
              [risk_confidence r, forecast_confidence f, sent_confidence s, corr_confidence c] \<noteq> []"
    using some by (auto simp: filter_empty_conv)
  show ?thesis
    unfolding AdvisoryAgent_analyze_confidence(1) [OF run] eq np_mean_def Let_def
    using ne by simp
qed

text \<open>
  C7. \<open>_generate_overall_recommendation\<close> is the decision table of the specification,
  read top to bottom with the first match winning, and \<open>analyze\<close> reports its outcome
  for the four levels and labels of its inputs.
\<close>

theorem overall_recommendation_decision_table:
  "generate_overall_recommendation risk fc sent corr
     = first_match spec_decision_table ''MAINTAIN_CURRENT_STRATEGY'' (risk, fc, sent)
   \<and> (risk = ''CRITICAL''
        \<longrightarrow> generate_overall_recommendation risk fc sent corr = ''REDUCE_RISK_IMMEDIATELY'')
   \<and> (risk = ''HIGH'' \<and> (fc = ''BEARISH'' \<or> sent = ''NEGATIVE'')
        \<longrightarrow> generate_overall_recommendation risk fc sent corr = ''DEFENSIVE_STANCE'')
   \<and> (risk = ''HIGH'' \<and> fc \<noteq> ''BEARISH'' \<and> sent \<noteq> ''NEGATIVE''
        \<longrightarrow> generate_overall_recommendation risk fc sent corr = ''MONITOR_CLOSELY'')
   \<and> (risk = ''MEDIUM'' \<and> fc = ''BEARISH'' \<and> sent = ''NEGATIVE''
        \<longrightarrow> generate_overall_recommendation risk fc sent corr = ''CAUTIOUS_APPROACH'')
   \<and> (risk = ''LOW'' \<and> fc = ''BULLISH'' \<and> sent = ''POSITIVE''
        \<longrightarrow> generate_overall_recommendation risk fc sent corr = ''FAVORABLE_CONDITIONS'')
   \<and> (risk \<noteq> ''CRITICAL'' \<and> risk \<noteq> ''HIGH''
        \<and> \<not> (risk = ''MEDIUM'' \<and> fc = ''BEARISH'' \<and> sent = ''NEGATIVE'')
        \<and> \<not> (risk = ''LOW'' \<and> fc = ''BULLISH'' \<and> sent = ''POSITIVE'')
        \<longrightarrow> generate_overall_recommendation risk fc sent corr = ''MAINTAIN_CURRENT_STRATEGY'')
   \<and> (AdvisoryAgent_analyze fmt self r f s c = Inr (res, self')
        \<longrightarrow> overall_recommendation res
              = first_match spec_decision_table ''MAINTAIN_CURRENT_STRATEGY''
                  (risk_level r, market_sentiment f, overall_label s))"
proof -
  have tbl: "\<And>risk fc sent corr. generate_overall_recommendation risk fc sent corr
     = first_match spec_decision_table ''MAINTAIN_CURRENT_STRATEGY'' (risk, fc, sent)"
    by (simp add: generate_overall_recommendation_def spec_decision_table_def)
  have rows: "(risk = ''CRITICAL''
        \<longrightarrow> generate_overall_recommendation risk fc sent corr = ''REDUCE_RISK_IMMEDIATELY'')
   \<and> (risk = ''HIGH'' \<and> (fc = ''BEARISH'' \<or> sent = ''NEGATIVE'')
        \<longrightarrow> generate_overall_recommendation risk fc sent corr = ''DEFENSIVE_STANCE'')
   \<and> (risk = ''HIGH'' \<and> fc \<noteq> ''BEARISH'' \<and> sent \<noteq> ''NEGATIVE''
        \<longrightarrow> generate_overall_recommendation risk fc sent corr = ''MONITOR_CLOSELY'')
   \<and> (risk = ''MEDIUM'' \<and> fc = ''BEARISH'' \<and> sent = ''NEGATIVE''
        \<longrightarrow> generate_overall_recommendation risk fc sent corr = ''CAUTIOUS_APPROACH'')
   \<and> (risk = ''LOW'' \<and> fc = ''BULLISH'' \<and> sent = ''POSITIVE''
        \<longrightarrow> generate_overall_recommendation risk fc sent corr = ''FAVORABLE_CONDITIONS'')
   \<and> (risk \<noteq> ''CRITICAL'' \<and> risk \<noteq> ''HIGH''
        \<and> \<not> (risk = ''MEDIUM'' \<and> fc = ''BEARISH'' \<and> sent = ''NEGATIVE'')
        \<and> \<not> (risk = ''LOW'' \<and> fc = ''BULLISH'' \<and> sent = ''POSITIVE'')
        \<longrightarrow> generate_overall_recommendation risk fc sent corr = ''MAINTAIN_CURRENT_STRATEGY'')"
    by (auto simp: generate_overall_recommendation_def)
  have res: "AdvisoryAgent_analyze fmt self r f s c = Inr (res, self')
        \<longrightarrow> overall_recommendation res
              = first_match spec_decision_table ''MAINTAIN_CURRENT_STRATEGY''
                  (risk_level r, market_sentiment f, overall_label s)"
    using AdvisoryAgent_analyze_confidence(2) [of fmt self r f s c res self'] tbl by simp
  show ?thesis
    using tbl [of risk fc sent corr] rows res by (intro conjI) (elim conjE, assumption)+
qed

theorem overall_recommendation_decision_table_witness:
  "generate_overall_recommendation ''CRITICAL'' ''BULLISH'' ''POSITIVE'' ''LOW''
     = ''REDUCE_RISK_IMMEDIATELY''
   \<and> generate_overall_recommendation ''HIGH'' ''BEARISH'' ''POSITIVE'' ''LOW''
     = ''DEFENSIVE_STANCE''
   \<and> generate_overall_recommendation ''HIGH'' ''BULLISH'' ''NEGATIVE'' ''LOW''
     = ''DEFENSIVE_STANCE''
   \<and> generate_overall_recommendation ''HIGH'' ''BULLISH'' ''POSITIVE'' ''HIGH''
     = ''MONITOR_CLOSELY''
   \<and> generate_overall_recommendation ''MEDIUM'' ''BEARISH'' ''NEGATIVE'' ''LOW''
     = ''CAUTIOUS_APPROACH''
   \<and> generate_overall_recommendation ''LOW'' ''BULLISH'' ''POSITIVE'' ''LOW''
     = ''FAVORABLE_CONDITIONS''
   \<and> generate_overall_recommendation ''MEDIUM'' ''BEARISH'' ''POSITIVE'' ''HIGH''
     = ''MAINTAIN_CURRENT_STRATEGY''
   \<and> generate_overall_recommendation ''UNKNOWN'' ''UNKNOWN'' ''NEUTRAL'' ''UNKNOWN''
     = ''MAINTAIN_CURRENT_STRATEGY''
   \<and> (\<exists>res self'.
        AdvisoryAgent_analyze (\<lambda>spec x. []) \<lparr>adv_last_analysis = None\<rparr>
          RiskAgent_empty_result ForecastAgent_empty_result SentimentAgent_empty_result
          CorrelationAgent_empty_result = Inr (res, self')
        \<and> overall_recommendation res = ''MAINTAIN_CURRENT_STRATEGY'')"
proof -
  obtain res where run:
    "AdvisoryAgent_analyze (\<lambda>spec x. []) \<lparr>adv_last_analysis = None\<rparr>
       RiskAgent_empty_result ForecastAgent_empty_result SentimentAgent_empty_result
       CorrelationAgent_empty_result
     = Inr (res, \<lparr>adv_last_analysis = None\<rparr>\<lparr>adv_last_analysis := Some res\<rparr>)"
    using AdvisoryAgent_analyze_total by blast
  note row = overall_recommendation_decision_table
    [where fmt = "\<lambda>spec x. []" and self = "\<lparr>adv_last_analysis = None\<rparr>"
       and r = RiskAgent_empty_result and f = ForecastAgent_empty_result
       and s = SentimentAgent_empty_result and c = CorrelationAgent_empty_result
       and res = res
       and self' = "\<lparr>adv_last_analysis = None\<rparr>\<lparr>adv_last_analysis := Some res\<rparr>"]
  have "overall_recommendation res
          = first_match spec_decision_table ''MAINTAIN_CURRENT_STRATEGY''
              (risk_level RiskAgent_empty_result, market_sentiment ForecastAgent_empty_result,
               overall_label SentimentAgent_empty_result)"
    using row [where risk = "''UNKNOWN''" and fc = "''UNKNOWN''" and sent = "''NEUTRAL''"
                 and corr = "''UNKNOWN''"] run
    by (elim conjE) simp
  then have "overall_recommendation res = ''MAINTAIN_CURRENT_STRATEGY''"
    by (simp add: spec_decision_table_def RiskAgent_empty_result_def
        ForecastAgent_empty_result_def SentimentAgent_empty_result_def)
  with run have last: "\<exists>res self'.
        AdvisoryAgent_analyze (\<lambda>spec x. []) \<lparr>adv_last_analysis = None\<rparr>
          RiskAgent_empty_result ForecastAgent_empty_result SentimentAgent_empty_result
          CorrelationAgent_empty_result = Inr (res, self')
        \<and> overall_recommendation res = ''MAINTAIN_CURRENT_STRATEGY''"
    by blast
  have r1: "generate_overall_recommendation ''CRITICAL'' ''BULLISH'' ''POSITIVE'' ''LOW'' = ''REDUCE_RISK_IMMEDIATELY''"
    using row [where risk = "''CRITICAL''" and fc = "''BULLISH''" and sent = "''POSITIVE''" and corr = "''LOW''"]
    by (elim conjE) simp
  have r2: "generate_overall_recommendation ''HIGH'' ''BEARISH'' ''POSITIVE'' ''LOW'' = ''DEFENSIVE_STANCE''"
    using row [where risk = "''HIGH''" and fc = "''BEARISH''" and sent = "''POSITIVE''" and corr = "''LOW''"]
    by (elim conjE) simp
  have r3: "generate_overall_recommendation ''HIGH'' ''BULLISH'' ''NEGATIVE'' ''LOW'' = ''DEFENSIVE_STANCE''"
    using row [where risk = "''HIGH''" and fc = "''BULLISH''" and sent = "''NEGATIVE''" and corr = "''LOW''"]
    by (elim conjE) simp
  have r4: "generate_overall_recommendation ''HIGH'' ''BULLISH'' ''POSITIVE'' ''HIGH'' = ''MONITOR_CLOSELY''"
    using row [where risk = "''HIGH''" and fc = "''BULLISH''" and sent = "''POSITIVE''" and corr = "''HIGH''"]
    by (elim conjE) simp
  have r5: "generate_overall_recommendation ''MEDIUM'' ''BEARISH'' ''NEGATIVE'' ''LOW'' = ''CAUTIOUS_APPROACH''"
    using row [where risk = "''MEDIUM''" and fc = "''BEARISH''" and sent = "''NEGATIVE''" and corr = "''LOW''"]
    by (elim conjE) simp
  have r6: "generate_overall_recommendation ''LOW'' ''BULLISH'' ''POSITIVE'' ''LOW'' = ''FAVORABLE_CONDITIONS''"
    using row [where risk = "''LOW''" and fc = "''BULLISH''" and sent = "''POSITIVE''" and corr = "''LOW''"]
    by (elim conjE) simp
  have r7: "generate_overall_recommendation ''MEDIUM'' ''BEARISH'' ''POSITIVE'' ''HIGH'' = ''MAINTAIN_CURRENT_STRATEGY''"
    using row [where risk = "''MEDIUM''" and fc = "''BEARISH''" and sent = "''POSITIVE''" and corr = "''HIGH''"]
    by (elim conjE) simp
  have r8: "generate_overall_recommendation ''UNKNOWN'' ''UNKNOWN'' ''NEUTRAL'' ''UNKNOWN'' = ''MAINTAIN_CURRENT_STRATEGY''"
    using row [where risk = "''UNKNOWN''" and fc = "''UNKNOWN''" and sent = "''NEUTRAL''" and corr = "''UNKNOWN''"]
    by (elim conjE) simp
  show ?thesis
    by (intro conjI r1 r2 r3 r4 r5 r6 r7 r8 last)
qed

section \<open>Forecast agent: a faulting symbol is skipped\<close>

lemma forecast_symbol_faults:
  "forecast_faults prepare fit self df \<Longrightarrow> forecast_symbol prepare fit self symb df acc = acc"
  by (auto simp: forecast_faults_def forecast_symbol_def split: sum.splits)

lemma forecast_loop_append:
  "forecast_loop prepare fit self (xs @ ys) acc
     = forecast_loop prepare fit self ys (forecast_loop prepare fit self xs acc)"
  by (induction xs arbitrary: acc) auto

lemma forecast_loop_skips_fault:
  assumes "forecast_faults prepare fit self df"
  shows "forecast_loop prepare fit self (before @ (symb, df) # after) acc
           = forecast_loop prepare fit self (before @ after) acc"
  by (simp add: forecast_loop_append forecast_symbol_faults [OF assms])

lemma forecast_loop_filter_faults:
  "forecast_loop prepare fit self
     (filter (\<lambda>(symb, df). \<not> forecast_faults prepare fit self df) data) acc
   = forecast_loop prepare fit self data acc"
  by (induction data arbitrary: acc) (auto simp: forecast_symbol_faults)

text \<open>
  C9. \<open>analyze\<close> always returns a result (its model has no error value: the \<open>try\<close>
  block catches every exception of the two fallible steps). A symbol for which
  preparing the features, or fitting and predicting, raises is skipped: the result of
  the batch is the result of the batch without that symbol, whatever the other symbols
  and whatever the two steps compute.
\<close>

theorem forecast_fault_isolated:
  assumes "forecast_faults prepare fit self df"
  shows "fst (ForecastAgent_analyze prepare fit self (before @ (symb, df) # after))
           = fst (ForecastAgent_analyze prepare fit self (before @ after))
         \<and> forecast_symbol prepare fit self symb df acc = acc"
proof (cases "before @ after = []")
  case True
  then have e: "before = []" "after = []" by simp_all
  show ?thesis
    by (simp add: e ForecastAgent_analyze_def forecast_symbol_faults [OF assms]
        ForecastAgent_empty_result_def Let_def)
next
  case False
  then have ne: "(before @ after = []) = False" "(before @ (symb, df) # after = []) = False"
    by simp_all
  show ?thesis
    unfolding ForecastAgent_analyze_def forecast_loop_skips_fault [OF assms] ne
    by (simp add: forecast_symbol_faults [OF assms])
qed

text \<open>The same for any number of faulting symbols.\<close>

lemma forecast_faults_filtered:
  "fst (ForecastAgent_analyze prepare fit self data)
     = fst (ForecastAgent_analyze prepare fit self
              (filter (\<lambda>(symb, df). \<not> forecast_faults prepare fit self df) data))"
proof (cases "filter (\<lambda>(symb, df). \<not> forecast_faults prepare fit self df) data = []")
  case True
  have "forecast_loop prepare fit self data acc = acc" for acc
    using forecast_loop_filter_faults [of prepare fit self data acc] True by simp
  then show ?thesis
    by (simp add: True ForecastAgent_analyze_def ForecastAgent_empty_result_def Let_def)
next
  case False
  then have "data \<noteq> []" by auto
  with False show ?thesis
    by (simp add: ForecastAgent_analyze_def forecast_loop_filter_faults)
qed

lemma example_frame_len: "df_len (example_frame cols) = 30"
  by (simp add: df_len_def example_frame_def)

lemma example_frame_faults:
  "forecast_faults example_prepare example_fit ForecastAgent_init (example_frame [''Volume''])"
  by (simp add: forecast_faults_def example_frame_len example_prepare_def)
     (simp add: example_frame_def df_empty_def)

lemma example_train_and_predict:
  "ForecastAgent_train_and_predict example_fit ForecastAgent_init example_features
     = Inr (0.01, 0.5, ''UPTREND'')"
  by (simp add: ForecastAgent_train_and_predict_def example_fit_def example_features_def
      iloc_but_last_def iloc_last_def eval_nat_numeral Let_def)

lemma example_frame_forecast:
  "forecast_symbol example_prepare example_fit ForecastAgent_init symb
     (example_frame [''Close'', ''Volume'']) acc
   = \<lparr>acc_forecasts =
        AList.update symb
          \<lparr>predicted_return = 0.01, predicted_direction = ''UP'', fc_confidence = 0.5,
           trend = ''UPTREND''\<rparr> (acc_forecasts acc),
      acc_trends = AList.update symb ''UPTREND'' (acc_trends acc),
      acc_confidences = AList.update symb 0.5 (acc_confidences acc)\<rparr>"
proof -
  have ne: "\<not> df_empty (example_frame [''Close'', ''Volume''])"
    by (simp add: df_empty_def example_frame_def)
  have f: "example_features \<noteq> []"
    by (simp add: example_features_def eval_nat_numeral)
  show ?thesis
    by (simp add: forecast_symbol_def ne example_frame_len example_prepare_def
        example_train_and_predict f)
       (simp add: example_frame_def)
qed

theorem forecast_fault_isolated_witness:
  "forecast_faults example_prepare example_fit ForecastAgent_init (example_frame [''Volume''])
   \<and> fst (ForecastAgent_analyze example_prepare example_fit ForecastAgent_init
            [(''AAPL'', example_frame [''Close'', ''Volume'']),
             (''BAD'', example_frame [''Volume'']),
             (''MSFT'', example_frame [''Close'', ''Volume''])])
     = fst (ForecastAgent_analyze example_prepare example_fit ForecastAgent_init
              [(''AAPL'', example_frame [''Close'', ''Volume'']),
               (''MSFT'', example_frame [''Close'', ''Volume''])])
   \<and> map fst (forecasts (fst (ForecastAgent_analyze example_prepare example_fit ForecastAgent_init
            [(''AAPL'', example_frame [''Close'', ''Volume'']),
             (''BAD'', example_frame [''Volume'']),
             (''MSFT'', example_frame [''Close'', ''Volume''])])))
     = [''AAPL'', ''MSFT'']
   \<and> market_sentiment (fst (ForecastAgent_analyze example_prepare example_fit ForecastAgent_init
            [(''AAPL'', example_frame [''Close'', ''Volume'']),
             (''BAD'', example_frame [''Volume'']),
             (''MSFT'', example_frame [''Close'', ''Volume''])]))
     = ''BULLISH''"
proof -
  note t = forecast_fault_isolated
    [OF example_frame_faults,
     of "[(''AAPL'', example_frame [''Close'', ''Volume''])]" "''BAD''"
        "[(''MSFT'', example_frame [''Close'', ''Volume''])]"]
  have eq: "fst (ForecastAgent_analyze example_prepare example_fit ForecastAgent_init
            [(''AAPL'', example_frame [''Close'', ''Volume'']),
             (''BAD'', example_frame [''Volume'']),
             (''MSFT'', example_frame [''Close'', ''Volume''])])
     = fst (ForecastAgent_analyze example_prepare example_fit ForecastAgent_init
              [(''AAPL'', example_frame [''Close'', ''Volume'']),
               (''MSFT'', example_frame [''Close'', ''Volume''])])"
    using t by simp
  have two: "map fst (forecasts (fst (ForecastAgent_analyze example_prepare example_fit
                ForecastAgent_init
              [(''AAPL'', example_frame [''Close'', ''Volume'']),
               (''MSFT'', example_frame [''Close'', ''Volume''])])))
     = [''AAPL'', ''MSFT'']
     \<and> market_sentiment (fst (ForecastAgent_analyze example_prepare example_fit ForecastAgent_init
              [(''AAPL'', example_frame [''Close'', ''Volume'']),
               (''MSFT'', example_frame [''Close'', ''Volume''])]))
     = ''BULLISH''"
    by (simp add: ForecastAgent_analyze_def example_frame_forecast Let_def)
  show ?thesis
    unfolding eq using example_frame_faults two by simp
qed

section \<open>Engine: an exception of an agent\<close>

lemma run_all_agents_fault:
  "first_base_agent_fault c e = Some err \<Longrightarrow> run_all_agents c e = Inl err"
  by (auto simp: first_base_agent_fault_def run_all_agents_def split: sum.splits)

lemma first_base_agent_fault_other_stages:
  "first_base_agent_fault
     (c\<lparr>advisory_agent_analyze := adv, calculate_portfolio_metrics := pm\<rparr>) e
   = first_base_agent_fault c e"
  by (simp add: first_base_agent_fault_def split: sum.splits)

lemma fetch_all_data_other_stages:
  "fetch_all_data (c\<lparr>advisory_agent_analyze := adv, calculate_portfolio_metrics := pm\<rparr>) e period
   = fetch_all_data c e period"
  by (simp add: fetch_all_data_def split: sum.splits)

lemma run_fault:
  assumes "fetch_all_data c e period = (True, e1)"
    and "first_base_agent_fault c e1 = Some err"
  shows "run c e period = Inl err"
  by (simp add: run_def assms(1) run_all_agents_fault [OF assms(2)])

lemma empty_results_score:
  "calculate_unified_risk_score
     (e\<lparr>agent_results :=
          results_dict RiskAgent_empty_result ForecastAgent_empty_result
            SentimentAgent_empty_result CorrelationAgent_empty_result a\<rparr>)
   = Inr (25, e\<lparr>agent_results :=
                   results_dict RiskAgent_empty_result ForecastAgent_empty_result
                     SentimentAgent_empty_result CorrelationAgent_empty_result a,
                 unified_score := 25\<rparr>)"
proof -
  have "spec_unified_score RiskAgent_empty_result ForecastAgent_empty_result
          SentimentAgent_empty_result CorrelationAgent_empty_result = 25"
    by (simp add: spec_unified_score_def spec_clamp_def spec_forecast_derived_score_def
        spec_sentiment_derived_score_def spec_correlation_derived_score_def
        RiskAgent_empty_result_def ForecastAgent_empty_result_def
        SentimentAgent_empty_result_def CorrelationAgent_empty_result_def)
  then show ?thesis
    using unified_score_on_results
      [where e = e and r = RiskAgent_empty_result and f = ForecastAgent_empty_result
         and s = SentimentAgent_empty_result and c = CorrelationAgent_empty_result and a = a]
    by simp
qed

text \<open>
  C8 (amended). \<open>run_all_agents\<close> and \<open>run\<close> catch nothing: when the data was fetched
  and a base agent's \<open>analyze\<close> raises, the exception leaves both and reaches the
  caller, whatever the advisory agent and the later stages would do; they are not run
  and there is no summary. Where the four base agents return their UNKNOWN/empty
  results, the unified score is computed from the defaults (risk 0, forecast 50,
  sentiment 50, correlation 25), which gives 25, and nothing is raised.
\<close>

theorem agent_fault_propagates:
  assumes "fetch_all_data c e period = (True, e1)"
    and "first_base_agent_fault c e1 = Some err"
  shows "run_all_agents c e1 = Inl err
         \<and> run c e period = Inl err
         \<and> run (c\<lparr>advisory_agent_analyze := adv, calculate_portfolio_metrics := pm\<rparr>) e period
           = Inl err
         \<and> calculate_unified_risk_score
             (e1\<lparr>agent_results :=
                   results_dict RiskAgent_empty_result ForecastAgent_empty_result
                     SentimentAgent_empty_result CorrelationAgent_empty_result a\<rparr>)
           = Inr (25, e1\<lparr>agent_results :=
                            results_dict RiskAgent_empty_result ForecastAgent_empty_result
                              SentimentAgent_empty_result CorrelationAgent_empty_result a,
                          unified_score := 25\<rparr>)"
proof -
  have other: "run (c\<lparr>advisory_agent_analyze := adv, calculate_portfolio_metrics := pm\<rparr>) e period
                 = Inl err"
    by (rule run_fault [where ?e1.0 = e1])
       (simp_all only: fetch_all_data_other_stages first_base_agent_fault_other_stages assms)
  show ?thesis
    by (intro conjI run_all_agents_fault [OF assms(2)] run_fault [OF assms] other
        empty_results_score)
qed

lemma example_fetch:
  "fetch_all_data example_faulty_collaborators (ARIONEngine_init [''AAPL'']) ''3mo''
     = (True, (ARIONEngine_init [''AAPL''])
                \<lparr>market_data := [(''AAPL'', example_short_frame)], current_prices := [],
                  news_data := []\<rparr>)"
  by (simp add: fetch_all_data_def example_faulty_collaborators_def example_collaborators_def
      ARIONEngine_init_def)

lemma example_fault:
  "first_base_agent_fault example_faulty_collaborators e1 = Some (Raised ''ValueError'')"
  by (simp add: first_base_agent_fault_def example_faulty_collaborators_def)

theorem agent_fault_propagates_witness:
  "fetch_all_data example_faulty_collaborators (ARIONEngine_init [''AAPL'']) ''3mo''
     = (True, (ARIONEngine_init [''AAPL''])
                \<lparr>market_data := [(''AAPL'', example_short_frame)], current_prices := [],
                  news_data := []\<rparr>)
   \<and> first_base_agent_fault example_faulty_collaborators
        ((ARIONEngine_init [''AAPL''])
           \<lparr>market_data := [(''AAPL'', example_short_frame)], current_prices := [],
             news_data := []\<rparr>)
     = Some (Raised ''ValueError'')
   \<and> run_all_agents example_faulty_collaborators
        ((ARIONEngine_init [''AAPL''])
           \<lparr>market_data := [(''AAPL'', example_short_frame)], current_prices := [],
             news_data := []\<rparr>)
     = Inl (Raised ''ValueError'')
   \<and> run example_faulty_collaborators (ARIONEngine_init [''AAPL'']) ''3mo''
     = Inl (Raised ''ValueError'')"
proof -
  note t = agent_fault_propagates
    [OF example_fetch example_fault,
     where adv = "\<lambda>r f s k. Inl (Raised ''unused'')" and pm = "\<lambda>data. Inr []"
       and a = example_advisory_result]
  show ?thesis
    by (intro conjI example_fetch example_fault t [THEN conjunct1]
        t [THEN conjunct2, THEN conjunct1])
qed

text \<open>
  C8 as stated fails: with a risk agent whose \<open>analyze\<close> raises, \<open>run\<close> returns no
  summary, with or without a sentinel in the place of the risk result; the exception
  is its outcome.
\<close>

theorem agent_fault_counterexample:
  "run example_faulty_collaborators (ARIONEngine_init [''AAPL'']) ''3mo''
     = Inl (Raised ''ValueError'')
   \<and> \<not> (\<exists>s e'. run example_faulty_collaborators (ARIONEngine_init [''AAPL'']) ''3mo''
                  = Inr (Some s, e'))"
proof -
  have "run example_faulty_collaborators (ARIONEngine_init [''AAPL'']) ''3mo''
          = Inl (Raised ''ValueError'')"
    unfolding run_def example_fetch
    by (simp add: run_all_agents_def example_faulty_collaborators_def)
  then show ?thesis by simp
qed

text \<open>
  The same run with a risk agent that returns its empty result ends with a summary:
  score 25, level MEDIUM.
\<close>

lemma example_run_with_sentinels:
  "\<exists>s e'. run example_collaborators (ARIONEngine_init [''AAPL'']) ''3mo'' = Inr (Some s, e')
          \<and> sum_unified_risk_score s = 25 \<and> sum_risk_level s = ''MEDIUM''
          \<and> all_alerts s = []"
proof -
  have fetch: "fetch_all_data example_collaborators (ARIONEngine_init [''AAPL'']) ''3mo''
     = (True, (ARIONEngine_init [''AAPL''])
                \<lparr>market_data := [(''AAPL'', example_short_frame)], current_prices := [],
                  news_data := []\<rparr>)"
    by (simp add: fetch_all_data_def example_collaborators_def ARIONEngine_init_def)
  obtain a where adv:
    "AdvisoryAgent_analyze (\<lambda>spec x. []) \<lparr>adv_last_analysis = None\<rparr> RiskAgent_empty_result
       ForecastAgent_empty_result SentimentAgent_empty_result CorrelationAgent_empty_result
     = Inr (a, \<lparr>adv_last_analysis = None\<rparr>\<lparr>adv_last_analysis := Some a\<rparr>)"
    using AdvisoryAgent_analyze_total by blast
  have agents: "run_all_agents example_collaborators e1
     = Inr (results_dict RiskAgent_empty_result ForecastAgent_empty_result
              SentimentAgent_empty_result CorrelationAgent_empty_result a,
            e1\<lparr>agent_results :=
                 results_dict RiskAgent_empty_result ForecastAgent_empty_result
                   SentimentAgent_empty_result CorrelationAgent_empty_result a\<rparr>)" for e1
    by (simp add: run_all_agents_def example_collaborators_def adv Let_def)
  have alerts: "fst (get_all_alerts
     (e1\<lparr>agent_results :=
           results_dict RiskAgent_empty_result ForecastAgent_empty_result
             SentimentAgent_empty_result CorrelationAgent_empty_result a,
         unified_score := 25\<rparr>)) = []" for e1
    by (simp add: get_all_alerts_def results_dict_def RiskAgent_empty_result_def
        SentimentAgent_empty_result_def CorrelationAgent_empty_result_def)
  have metrics: "calculate_portfolio_metrics example_collaborators d = Inr []" for d
    by (simp add: example_collaborators_def)
  show ?thesis
    unfolding run_def fetch
    by (simp add: agents empty_results_score get_summary_def metrics
        engine_get_risk_level_def alerts split_beta)
qed

section \<open>The result of \<open>analyze\<close> does not depend on \<open>last_analysis\<close>\<close>

lemma risk_symbol_state:
  "risk_symbol fmt (self\<lparr>risk_last_analysis := la\<rparr>) symb df acc = risk_symbol fmt self symb df acc"
  by (simp add: risk_symbol_def Let_def cong: sum.case_cong if_cong)

lemma risk_loop_state:
  "risk_loop fmt (self\<lparr>risk_last_analysis := la\<rparr>) data acc = risk_loop fmt self data acc"
  by (induction data arbitrary: acc) (auto simp: risk_symbol_state split: sum.splits)

lemma RiskAgent_result_state:
  "map_sum id fst (RiskAgent_analyze fmt (self\<lparr>risk_last_analysis := la\<rparr>) data)
     = map_sum id fst (RiskAgent_analyze fmt self data)"
  by (simp add: RiskAgent_analyze_def risk_loop_state Let_def split: sum.splits)

lemma RiskAgent_post_state:
  "RiskAgent_analyze fmt self data = Inr (res, self')
     \<Longrightarrow> self' = self\<lparr>risk_last_analysis := risk_last_analysis self'\<rparr>"
  by (auto simp: RiskAgent_analyze_def Let_def split: if_splits sum.splits)

lemma forecast_symbol_state:
  "forecast_symbol prepare fit (self\<lparr>fc_last_analysis := la\<rparr>) symb df acc
     = forecast_symbol prepare fit self symb df acc"
  by (simp add: forecast_symbol_def ForecastAgent_train_and_predict_def Let_def
      cong: sum.case_cong if_cong)

lemma forecast_loop_state:
  "forecast_loop prepare fit (self\<lparr>fc_last_analysis := la\<rparr>) data acc
     = forecast_loop prepare fit self data acc"
  by (induction data arbitrary: acc) (auto simp: forecast_symbol_state)

lemma ForecastAgent_result_state:
  "fst (ForecastAgent_analyze prepare fit (self\<lparr>fc_last_analysis := la\<rparr>) data)
     = fst (ForecastAgent_analyze prepare fit self data)"
  by (simp add: ForecastAgent_analyze_def forecast_loop_state Let_def)

lemma ForecastAgent_post_state:
  "snd (ForecastAgent_analyze prepare fit self data)
     = self\<lparr>fc_last_analysis := fc_last_analysis (snd (ForecastAgent_analyze prepare fit self data))\<rparr>"
  by (simp add: ForecastAgent_analyze_def Let_def)

lemma SentimentAgent_result_state:
  "fst (SentimentAgent_analyze fmt polarity (self\<lparr>sent_last_analysis := la\<rparr>) news)
     = fst (SentimentAgent_analyze fmt polarity self news)"
  by (simp add: SentimentAgent_analyze_def Let_def)

text \<open>The sentiment agent keeps nothing but \<open>last_analysis\<close>.\<close>

lemma SentimentAgent_result_any_state:
  "fst (SentimentAgent_analyze fmt polarity self' news)
     = fst (SentimentAgent_analyze fmt polarity self news)"
  by (simp add: SentimentAgent_analyze_def Let_def)

lemma CorrelationAgent_result_state:
  "fst (CorrelationAgent_analyze fmt (self\<lparr>corr_last_analysis := la\<rparr>) data)
     = fst (CorrelationAgent_analyze fmt self data)"
  by (simp add: CorrelationAgent_analyze_def Let_def)

lemma CorrelationAgent_post_state:
  "snd (CorrelationAgent_analyze fmt self data)
     = self\<lparr>corr_last_analysis :=
              corr_last_analysis (snd (CorrelationAgent_analyze fmt self data))\<rparr>"
  by (simp add: CorrelationAgent_analyze_def Let_def)

text \<open>
  For each of the four base agents, the result of \<open>analyze\<close> does not depend on what an
  earlier call left in \<open>last_analysis\<close>, the only state an agent keeps between calls
  beside its fixed thresholds: two successive calls with the same input give the same
  result (or the same exception) when the steps taken from libraries (float formatting,
  the lexicon scorer, the feature preparation, the regression fit) return in the second
  call what they returned in the first. That is all this says: these steps are
  functions of their arguments in this model, so whether they draw on a random source
  (the forest is built with \<open>random_state=42\<close>) is not a question the model can put.
\<close>

lemma analyze_twice_same_result:
  "fst (RiskAgent_analyze_twice fmt rself data) = snd (RiskAgent_analyze_twice fmt rself data)
   \<and> fst (ForecastAgent_analyze_twice prepare fit fself data)
     = snd (ForecastAgent_analyze_twice prepare fit fself data)
   \<and> fst (SentimentAgent_analyze_twice fmt polarity sself news)
     = snd (SentimentAgent_analyze_twice fmt polarity sself news)
   \<and> fst (CorrelationAgent_analyze_twice fmt cself data)
     = snd (CorrelationAgent_analyze_twice fmt cself data)
   \<and> map_sum id fst (RiskAgent_analyze fmt (rself\<lparr>risk_last_analysis := rla\<rparr>) data)
     = map_sum id fst (RiskAgent_analyze fmt rself data)
   \<and> fst (ForecastAgent_analyze prepare fit (fself\<lparr>fc_last_analysis := fla\<rparr>) data)
     = fst (ForecastAgent_analyze prepare fit fself data)
   \<and> fst (SentimentAgent_analyze fmt polarity (sself\<lparr>sent_last_analysis := sla\<rparr>) news)
     = fst (SentimentAgent_analyze fmt polarity sself news)
   \<and> fst (CorrelationAgent_analyze fmt (cself\<lparr>corr_last_analysis := cla\<rparr>) data)
     = fst (CorrelationAgent_analyze fmt cself data)"
proof -
  have risk: "fst (RiskAgent_analyze_twice fmt rself data)
                = snd (RiskAgent_analyze_twice fmt rself data)"
  proof (cases "RiskAgent_analyze fmt rself data")
    case (Inl err)
    then show ?thesis by (simp add: RiskAgent_analyze_twice_def)
  next
    case (Inr p)
    obtain res self' where p: "p = (res, self')" by (cases p)
    have "map_sum id fst (RiskAgent_analyze fmt self' data)
            = map_sum id fst (RiskAgent_analyze fmt rself data)"
      using RiskAgent_post_state [of fmt rself data res self'] Inr p
        RiskAgent_result_state
          [where fmt = fmt and self = rself and la = "risk_last_analysis self'" and data = data]
      by simp
    then show ?thesis
      by (simp add: RiskAgent_analyze_twice_def Inr p)
  qed
  have forecast: "fst (ForecastAgent_analyze_twice prepare fit fself data)
                    = snd (ForecastAgent_analyze_twice prepare fit fself data)"
    using ForecastAgent_post_state [of prepare fit fself data]
      ForecastAgent_result_state
        [where prepare = prepare and fit = fit and self = fself and data = data
           and la = "fc_last_analysis (snd (ForecastAgent_analyze prepare fit fself data))"]
    by (simp add: ForecastAgent_analyze_twice_def split_beta)
  have sentiment: "fst (SentimentAgent_analyze_twice fmt polarity sself news)
                     = snd (SentimentAgent_analyze_twice fmt polarity sself news)"
    using SentimentAgent_result_any_state
        [where fmt = fmt and polarity = polarity and self = sself and news = news
           and self' = "snd (SentimentAgent_analyze fmt polarity sself news)"]
    by (simp add: SentimentAgent_analyze_twice_def split_beta)
  have correlation: "fst (CorrelationAgent_analyze_twice fmt cself data)
                       = snd (CorrelationAgent_analyze_twice fmt cself data)"
    using CorrelationAgent_post_state [of fmt cself data]
      CorrelationAgent_result_state
        [where fmt = fmt and self = cself and data = data
           and la = "corr_last_analysis (snd (CorrelationAgent_analyze fmt cself data))"]
    by (simp add: CorrelationAgent_analyze_twice_def split_beta)
  show ?thesis
    by (intro conjI risk forecast sentiment correlation RiskAgent_result_state
        ForecastAgent_result_state SentimentAgent_result_state CorrelationAgent_result_state)
qed

end
